theory Spec2Isabelle
  imports Main "HOL-Library.Word"
begin

section \<open>JavaScript strings\<close>

text \<open>
  A JavaScript string is modelled as a \<^typ>\<open>string\<close>: one \<^typ>\<open>char\<close> per code unit,
  for code units below 256 (the Latin-1 range). \<^verbatim>\<open>String.prototype.trim\<close> strips
  WhiteSpace and LineTerminator code points from both ends; in this range they are
  TAB, LF, VT, FF, CR, SPACE and NBSP.
\<close>

definition js_whitespace :: "char \<Rightarrow> bool" where
  "js_whitespace c = (of_char c \<in> {9, 10, 11, 12, 13, 32, 160 :: nat})"

definition js_trim :: "string \<Rightarrow> string" where
  "js_trim s = rev (dropWhile js_whitespace (rev (dropWhile js_whitespace s)))"

text \<open>\<^verbatim>\<open>s.padStart(n, '0')\<close> and \<^verbatim>\<open>s.padEnd(n, '0')\<close> with a one-character filler.\<close>

definition padStart :: "string \<Rightarrow> nat \<Rightarrow> char \<Rightarrow> string" where
  "padStart s n c = replicate (n - length s) c @ s"

definition padEnd :: "string \<Rightarrow> nat \<Rightarrow> char \<Rightarrow> string" where
  "padEnd s n c = s @ replicate (n - length s) c"

text \<open>
  \<^verbatim>\<open>s.slice(start, end)\<close>: a negative index counts from the end, an absent \<^verbatim>\<open>end\<close> is the
  length, and both are clamped to the string. \<^verbatim>\<open>-0\<close> is \<^verbatim>\<open>0\<close>, so \<^verbatim>\<open>s.slice(0, -0)\<close> is empty.
\<close>

definition slice_index :: "nat \<Rightarrow> int \<Rightarrow> nat" where
  "slice_index len i = (if i < 0 then nat (max (int len + i) 0) else min (nat i) len)"

definition js_slice :: "string \<Rightarrow> int \<Rightarrow> int option \<Rightarrow> string" where
  "js_slice s start end_opt =
     (let len = length s;
          from = slice_index len start;
          to = (case end_opt of None \<Rightarrow> len | Some e \<Rightarrow> slice_index len e)
      in take (to - from) (drop from s))"

text \<open>\<^verbatim>\<open>s.split('.')\<close> with a one-character separator: the pieces between the separators.\<close>

fun js_split :: "char \<Rightarrow> string \<Rightarrow> string list" where
  "js_split sep [] = [[]]"
| "js_split sep (c # cs) =
     (if c = sep then [] # js_split sep cs
      else (case js_split sep cs of p # ps \<Rightarrow> (c # p) # ps | [] \<Rightarrow> [[c]]))"

text \<open>
  Decimal digits: the regular-expression class \<^verbatim>\<open>\d\<close> is the characters \<^verbatim>\<open>0\<close> to \<^verbatim>\<open>9\<close>,
  code units 48 to 57.
\<close>

definition is_digit :: "char \<Rightarrow> bool" where
  "is_digit c = (48 \<le> (of_char c :: nat) \<and> (of_char c :: nat) \<le> 57)"

definition digit_char :: "nat \<Rightarrow> char" where
  "digit_char k = char_of (48 + k mod 10)"

definition digit_val :: "char \<Rightarrow> nat" where
  "digit_val c = of_char c - 48"

text \<open>
  \<^verbatim>\<open>n.toString()\<close> of a bigint \<^verbatim>\<open>n\<close>: decimal digits, no leading zero, a minus sign if
  negative.
\<close>

fun nat_toString :: "nat \<Rightarrow> string" where
  "nat_toString n =
     (if n < 10 then [digit_char n] else nat_toString (n div 10) @ [digit_char (n mod 10)])"

definition bigint_toString :: "int \<Rightarrow> string" where
  "bigint_toString n =
     (if n < 0 then CHR ''-'' # nat_toString (nat (- n)) else nat_toString (nat n))"

text \<open>
  An amount is a \<^verbatim>\<open>bigint\<close> or a \<^verbatim>\<open>number\<close>. A number amount is given by its value, an
  integer that a double can hold; numbers with a fractional part are not modelled.

  \<^verbatim>\<open>Number.prototype.toString\<close> prints an integer of magnitude below \<open>2\<^sup>5\<^sup>3\<close> exactly, as the
  bigint of the same value is printed. From \<open>2\<^sup>5\<^sup>3\<close> on it prints the shortest digits that
  identify the double, followed by zeros, and from \<open>10\<^sup>2\<^sup>1\<close> on it uses exponent notation;
  \<open>number_toString\<close> stands for the built-in on that range.
\<close>

datatype amount = BigIntAmount int | NumberAmount int

definition amount_toString :: "(int \<Rightarrow> string) \<Rightarrow> amount \<Rightarrow> string" where
  "amount_toString number_toString amount =
     (case amount of
        BigIntAmount n \<Rightarrow> bigint_toString n
      | NumberAmount x \<Rightarrow>
          if \<bar>x\<bar> < 2 ^ 53 then bigint_toString x else number_toString x)"

text \<open>
  What \<^verbatim>\<open>Number.prototype.toString\<close> prints for the large numbers used in the examples
  further down: \<^verbatim>\<open>1e21\<close> and \<^verbatim>\<open>2**60\<close>.
\<close>

definition example_number_toString :: "int \<Rightarrow> string" where
  "example_number_toString x =
     (if x = 10 ^ 21 then ''1e+21''
      else if x = 2 ^ 60 then ''1152921504606847000''
      else [])"

text \<open>
  \<^verbatim>\<open>BigInt(s)\<close> on a string of decimal digits (the only strings \<^verbatim>\<open>parseAmount\<close> hands to it);
  the empty string is \<^verbatim>\<open>0n\<close>, any other character is a SyntaxError (\<open>None\<close>).
\<close>

definition digits_value :: "string \<Rightarrow> nat" where
  "digits_value s = foldl (\<lambda>acc c. 10 * acc + digit_val c) 0 s"

definition BigInt :: "string \<Rightarrow> int option" where
  "BigInt s = (if list_all is_digit s then Some (int (digits_value s)) else None)"

section \<open>Amount formatting (web3authIntegration.ts)\<close>

text \<open>
  \<^verbatim>\<open>formatAmount(amount, decimals)\<close>. The amount is a bigint or a number; \<^verbatim>\<open>decimals\<close> is a
  natural number.
\<close>

definition formatAmount :: "(int \<Rightarrow> string) \<Rightarrow> amount \<Rightarrow> nat \<Rightarrow> string" where
  "formatAmount number_toString amount decimals =
     (let amountStr = amount_toString number_toString amount;
          decimalPoints = decimals
      in if length amountStr \<le> decimalPoints
         then ''0.'' @ padStart amountStr decimalPoints CHR ''0''
         else (let integerPart = js_slice amountStr 0 (Some (- int decimalPoints));
                   decimalPart = js_slice amountStr (- int decimalPoints) None
               in integerPart @ ''.'' @ decimalPart))"

datatype amount_error = AmountRequired | InvalidAmountFormat | TooManyDecimalPlaces nat | BigIntSyntaxError

text \<open>The test \<^verbatim>\<open>/^\d+(\.\d+)?$/.test(s)\<close>, read off the pattern from left to right.\<close>

definition amount_regex_test :: "string \<Rightarrow> bool" where
  "amount_regex_test s =
     (let ds = takeWhile is_digit s; rest = dropWhile is_digit s
      in ds \<noteq> [] \<and>
         (case rest of
            [] \<Rightarrow> True
          | c # fs \<Rightarrow> c = CHR ''.'' \<and> fs \<noteq> [] \<and> list_all is_digit fs))"

text \<open>
  \<^verbatim>\<open>parseAmount(amount, decimals)\<close>; each \<^verbatim>\<open>throw\<close> is an \<open>Inl\<close>. The destructuring
  \<^verbatim>\<open>[integerPart = '0', decimalPart = '']\<close> takes the first two pieces of the split, with the
  defaults where a piece is missing.
\<close>

definition parseAmount :: "string \<Rightarrow> nat \<Rightarrow> amount_error + int" where
  "parseAmount amount decimals =
     (let trimmed = js_trim amount
      in if trimmed = [] then Inl AmountRequired
         else if \<not> amount_regex_test trimmed then Inl InvalidAmountFormat
         else (let parts = js_split CHR ''.'' trimmed;
                   integerPart = (case parts of [] \<Rightarrow> ''0'' | p # _ \<Rightarrow> p);
                   decimalPart = (case parts of _ # q # _ \<Rightarrow> q | _ \<Rightarrow> [])
               in if length decimalPart > decimals then Inl (TooManyDecimalPlaces decimals)
                  else (let paddedDecimal = padEnd decimalPart decimals CHR ''0'';
                            combined = integerPart @ paddedDecimal
                        in (case BigInt combined of
                              None \<Rightarrow> Inl BigIntSyntaxError
                            | Some v \<Rightarrow> Inr v))))"

text \<open>
  The numerals the pattern \<^verbatim>\<open>/^\d+(\.\d+)?$/\<close> describes, stated on their own: a non-empty
  run of digits, optionally followed by a point and another non-empty run of digits.
\<close>

definition digits1 :: "string \<Rightarrow> bool" where
  "digits1 s = (s \<noteq> [] \<and> list_all is_digit s)"

definition unsigned_decimal :: "string \<Rightarrow> bool" where
  "unsigned_decimal s =
     (digits1 s \<or> (\<exists>ip fp. s = ip @ CHR ''.'' # fp \<and> digits1 ip \<and> digits1 fp))"

section \<open>JavaScript values\<close>

text \<open>
  Request fields, parsed JSON and thrown values are untyped JavaScript values. Numbers are
  restricted to integers.
\<close>

datatype jsval =
    JUndefined
  | JNull
  | JBool bool
  | JNum int
  | JStr string
  | JArr "jsval list"
  | JObj "(string \<times> jsval) list"

text \<open>Truthiness, as \<^verbatim>\<open>if (v)\<close>, \<^verbatim>\<open>!v\<close> and \<^verbatim>\<open>a || b\<close> test it.\<close>

fun truthy :: "jsval \<Rightarrow> bool" where
  "truthy JUndefined = False"
| "truthy JNull = False"
| "truthy (JBool b) = b"
| "truthy (JNum n) = (n \<noteq> 0)"
| "truthy (JStr s) = (s \<noteq> [])"
| "truthy (JArr _) = True"
| "truthy (JObj _) = True"

definition js_or :: "jsval \<Rightarrow> jsval \<Rightarrow> jsval" where
  "js_or a b = (if truthy a then a else b)"

text \<open>\<^verbatim>\<open>a || b\<close> where \<^verbatim>\<open>a\<close> is known to be a string: the empty string is falsy.\<close>

definition str_or :: "string \<Rightarrow> string \<Rightarrow> string" where
  "str_or a b = (if a \<noteq> [] then a else b)"

text \<open>
  Optional chaining \<^verbatim>\<open>v?.k\<close>: \<^verbatim>\<open>undefined\<close> when \<^verbatim>\<open>v\<close> is \<^verbatim>\<open>null\<close> or \<^verbatim>\<open>undefined\<close>, the
  property otherwise (the first binding of the key; \<^verbatim>\<open>undefined\<close> when there is none).
\<close>

fun opt_get :: "jsval \<Rightarrow> string \<Rightarrow> jsval" where
  "opt_get (JObj kvs) k = (case map_of kvs k of Some v \<Rightarrow> v | None \<Rightarrow> JUndefined)"
| "opt_get _ k = JUndefined"

text \<open>\<^verbatim>\<open>s.endsWith(suffix)\<close>.\<close>

definition endsWith :: "string \<Rightarrow> string \<Rightarrow> bool" where
  "endsWith s suffix =
     (length suffix \<le> length s \<and> drop (length s - length suffix) s = suffix)"

section \<open>The pinning relay (the two server files)\<close>

text \<open>
  The repository holds two copies of the relay. They differ in the allow-list (one reads
  \<^verbatim>\<open>ALLOWED_ORIGINS\<close> and knows a wildcard, the other reads \<^verbatim>\<open>FRONTEND_ORIGIN\<close>) and in
  whether the health check sets its status. Definitions of the \<^verbatim>\<open>ALLOWED_ORIGINS\<close> copy carry
  the suffix \<open>_v0\<close>; the upload handler is the same in both.
\<close>

subsection \<open>Responses\<close>

text \<open>
  The Express response object, as far as the handlers touch it: a status code that starts
  at 200, the headers set by \<^verbatim>\<open>res.set\<close> and the JSON body sent by \<^verbatim>\<open>res.json\<close>.
\<close>

record response =
  statusCode :: nat
  headers :: "(string \<times> string) list"
  body :: "jsval option"

definition new_response :: response where
  "new_response = \<lparr>statusCode = 200, headers = [], body = None\<rparr>"

definition res_set :: "string \<Rightarrow> string \<Rightarrow> response \<Rightarrow> response" where
  "res_set k v res = res\<lparr>headers := (k, v) # filter (\<lambda>h. fst h \<noteq> k) (headers res)\<rparr>"

definition res_status :: "nat \<Rightarrow> response \<Rightarrow> response" where
  "res_status code res = res\<lparr>statusCode := code\<rparr>"

definition res_json :: "jsval \<Rightarrow> response \<Rightarrow> response" where
  "res_json v res = res\<lparr>body := Some v\<rparr>"

subsection \<open>Health check\<close>

text \<open>
  \<^verbatim>\<open>app.get('/health', ...)\<close>. The argument is the reading of \<^verbatim>\<open>Date.now()\<close> when the handler
  runs. The \<open>_v0\<close> copy leaves the status at its default; the other one sets it.
\<close>

definition health_v0 :: "int \<Rightarrow> response" where
  "health_v0 now =
     res_json (JObj [(''ok'', JBool True), (''ts'', JNum now)])
       (res_set ''Cache-Control'' ''no-store'' new_response)"

definition health :: "int \<Rightarrow> response" where
  "health now =
     res_json (JObj [(''ok'', JBool True), (''ts'', JNum now)])
       (res_status 200 (res_set ''Cache-Control'' ''no-store'' new_response))"

text \<open>Repeated calls: one clock reading per request, in the order the requests are served.\<close>

definition health_calls :: "int list \<Rightarrow> response list" where
  "health_calls clock = map health clock"

definition health_v0_calls :: "int list \<Rightarrow> response list" where
  "health_v0_calls clock = map health_v0 clock"

definition response_ts :: "response \<Rightarrow> jsval" where
  "response_ts res = (case body res of None \<Rightarrow> JUndefined | Some b \<Rightarrow> opt_get b ''ts'')"

text \<open>The numeric \<^verbatim>\<open>ts\<close> values of a run of responses, in order.\<close>

definition ts_values :: "response list \<Rightarrow> int list" where
  "ts_values rs = concat (map (\<lambda>r. case response_ts r of JNum t \<Rightarrow> [t] | _ \<Rightarrow> []) rs)"

subsection \<open>Cross-origin policy\<close>

text \<open>
  The allow-list of the \<open>_v0\<close> copy:
  \<^verbatim>\<open>(process.env.ALLOWED_ORIGINS || '*').split(',').map(trim)\<close>.
  The argument is the environment variable, \<open>None\<close> when unset.
\<close>

definition allowedOrigins_v0 :: "string option \<Rightarrow> string list" where
  "allowedOrigins_v0 env =
     map js_trim (js_split CHR '','' (str_or (case env of None \<Rightarrow> [] | Some v \<Rightarrow> v) ''*''))"

text \<open>
  The allow-list of the other copy:
  \<^verbatim>\<open>['http://localhost:5173', process.env.FRONTEND_ORIGIN].filter(Boolean).map(trim)\<close>.
\<close>

definition allowedOrigins :: "string option \<Rightarrow> string list" where
  "allowedOrigins env =
     map js_trim
       (filter (\<lambda>v. v \<noteq> [])
          (''http://localhost:5173'' # (case env of None \<Rightarrow> [] | Some v \<Rightarrow> [v])))"

text \<open>
  The \<^verbatim>\<open>origin\<close> callback handed to \<^verbatim>\<open>cors\<close>. The result is the second argument of \<^verbatim>\<open>cb\<close>.
  \<open>url_hostname\<close> stands for \<^verbatim>\<open>new URL(origin).hostname\<close>, \<open>None\<close> when the
  constructor throws; \<open>origin\<close> is the request's Origin header, \<open>None\<close> when absent.
  \<^verbatim>\<open>!origin\<close> holds for an absent and for an empty header.
\<close>

definition cors_origin_v0 ::
  "(string \<Rightarrow> string option) \<Rightarrow> string list \<Rightarrow> string option \<Rightarrow> bool" where
  "cors_origin_v0 url_hostname allowed origin =
     (case origin of
        None \<Rightarrow> True
      | Some org \<Rightarrow>
          if org = [] then True
          else if ''*'' \<in> set allowed then True
          else if org \<in> set allowed then True
          else (case url_hostname org of
                  None \<Rightarrow> False
                | Some host \<Rightarrow> if endsWith host ''.vercel.app'' then True else False))"

definition cors_origin ::
  "(string \<Rightarrow> string option) \<Rightarrow> string list \<Rightarrow> string option \<Rightarrow> bool" where
  "cors_origin url_hostname allowed origin =
     (case origin of
        None \<Rightarrow> True
      | Some org \<Rightarrow>
          if org = [] then True
          else if org \<in> set allowed then True
          else (case url_hostname org of
                  None \<Rightarrow> False
                | Some host \<Rightarrow> if endsWith host ''.vercel.app'' then True else False))"

text \<open>
  The hostnames \<^verbatim>\<open>new URL\<close> computes for the origins used in the examples further down;
  every other string is treated as unparsable.
\<close>

definition example_hostname :: "string \<Rightarrow> string option" where
  "example_hostname org =
     map_of
       [(''http://localhost:5173'', ''localhost''),
        (''https://my-fork.vercel.app'', ''my-fork.vercel.app''),
        (''https://evil.example'', ''evil.example'')] org"

subsection \<open>Lenient field readers\<close>

definition safeTrim :: "jsval \<Rightarrow> string" where
  "safeTrim v = (case v of JStr s \<Rightarrow> js_trim s | _ \<Rightarrow> [])"

text \<open>
  \<open>json_parse\<close> stands for \<^verbatim>\<open>JSON.parse\<close>, \<open>None\<close> when it throws. The \<^verbatim>\<open>try\<close> block
  turns that exception into the fallback.
\<close>

definition safeJsonParse :: "(string \<Rightarrow> jsval option) \<Rightarrow> jsval \<Rightarrow> jsval \<Rightarrow> jsval" where
  "safeJsonParse json_parse v fallback =
     (case v of
        JStr s \<Rightarrow>
          if js_trim s = [] then fallback
          else (case json_parse s of None \<Rightarrow> fallback | Some parsed \<Rightarrow> parsed)
      | _ \<Rightarrow> fallback)"

text \<open>What \<^verbatim>\<open>JSON.parse\<close> does on the strings used in the examples further down.\<close>

definition example_json_parse :: "string \<Rightarrow> jsval option" where
  "example_json_parse s =
     map_of
       [(''{}'', JObj []),
        (''{\"floor\":3}'', JObj [(''floor'', JNum 3)]),
        (''null'', JNull)] s"

subsection \<open>Requests and the pinning service\<close>

text \<open>
  The request after \<^verbatim>\<open>upload.single('file')\<close> has run: \<^verbatim>\<open>req.file\<close> (absent when the form
  had no \<^verbatim>\<open>file\<close> field) and \<^verbatim>\<open>req.body\<close> with the three text fields the handler reads
  (\<^verbatim>\<open>undefined\<close> when a field was not sent).
\<close>

record uploaded_file =
  buffer :: "8 word list"
  originalname :: string

record form_body =
  body_metaName :: jsval
  body_metaDescription :: jsval
  body_properties :: jsval

record request =
  req_file :: "uploaded_file option"
  req_body :: "form_body option"

text \<open>\<^verbatim>\<open>Readable.from(file.buffer)\<close> with its \<^verbatim>\<open>path\<close> property.\<close>

record read_stream =
  stream_data :: "8 word list"
  stream_path :: string

text \<open>The options \<^verbatim>\<open>{ pinataMetadata: { name } }\<close>.\<close>

record pin_options =
  pinataMetadata_name :: string

record nft_metadata =
  md_name :: string
  md_description :: string
  md_image :: string
  md_properties :: jsval

record pin_result =
  IpfsHash :: string

text \<open>
  The pinning client: each method either throws a value (\<open>Inl\<close>) or resolves to a result.
\<close>

record pinata_client =
  pinFileToIPFS :: "read_stream \<Rightarrow> pin_options \<Rightarrow> jsval + pin_result"
  pinJSONToIPFS :: "nft_metadata \<Rightarrow> pin_options \<Rightarrow> jsval + pin_result"

text \<open>
  The calls a handler makes to the pinning service, in order. \<open>Unpin\<close> is the service's
  removal call; the handler has no code path that issues it.
\<close>

datatype upstream_call =
    PinFileToIPFS read_stream pin_options
  | PinJSONToIPFS nft_metadata pin_options
  | Unpin string

subsection \<open>The upload handler\<close>

text \<open>The optional fields, \<^verbatim>\<open>req.body?.metaName\<close> and its siblings.\<close>

definition field_metaName :: "request \<Rightarrow> jsval" where
  "field_metaName req = (case req_body req of None \<Rightarrow> JUndefined | Some b \<Rightarrow> body_metaName b)"

definition field_metaDescription :: "request \<Rightarrow> jsval" where
  "field_metaDescription req =
     (case req_body req of None \<Rightarrow> JUndefined | Some b \<Rightarrow> body_metaDescription b)"

definition field_properties :: "request \<Rightarrow> jsval" where
  "field_properties req =
     (case req_body req of None \<Rightarrow> JUndefined | Some b \<Rightarrow> body_properties b)"

text \<open>The message of the 500 response, picked from the thrown value.\<close>

definition error_message :: "jsval \<Rightarrow> jsval" where
  "error_message error =
     js_or (js_or (js_or (opt_get (opt_get (opt_get error ''response'') ''data'') ''error'')
                         (opt_get (opt_get error ''response'') ''data''))
                  (opt_get error ''message''))
           (JStr ''Failed to pin to IPFS.'')"

definition error_response :: "jsval \<Rightarrow> response" where
  "error_response error =
     res_json (JObj [(''error'', error_message error)]) (res_status 500 new_response)"

text \<open>
  \<^verbatim>\<open>app.post('/api/pin-image', upload.single('file'), ...)\<close>, the same in both server files.
  The result is the response and the calls made to the pinning service; an \<^verbatim>\<open>await\<close> that
  throws leaves the \<^verbatim>\<open>try\<close> block at once.
\<close>

definition pin_image ::
  "(string \<Rightarrow> jsval option) \<Rightarrow> pinata_client \<Rightarrow> request \<Rightarrow> response \<times> upstream_call list" where
  "pin_image json_parse pinata req =
     (case req_file req of
        None \<Rightarrow>
          (res_json (JObj [(''error'', JStr ''No file uploaded'')]) (res_status 400 new_response),
           [])
      | Some file \<Rightarrow>
          (let metaName = str_or (safeTrim (field_metaName req)) ''NFT Example'';
               metaDescription =
                 str_or (safeTrim (field_metaDescription req)) ''This is an unchangeable NFT'';
               properties = safeJsonParse json_parse (field_properties req) (JObj []);
               stream = \<lparr>stream_data = buffer file,
                         stream_path = str_or (originalname file) ''upload''\<rparr>;
               imageOptions =
                 \<lparr>pinataMetadata_name = str_or (originalname file) (metaName @ '' Image'')\<rparr>
           in case pinFileToIPFS pinata stream imageOptions of
                Inl error \<Rightarrow> (error_response error, [PinFileToIPFS stream imageOptions])
              | Inr imageResult \<Rightarrow>
                  (let imageUrl = ''ipfs://'' @ IpfsHash imageResult;
                       metadata = \<lparr>md_name = metaName,
                                   md_description = metaDescription,
                                   md_image = imageUrl,
                                   md_properties = properties\<rparr>;
                       jsonOptions = \<lparr>pinataMetadata_name = metaName @ '' Metadata''\<rparr>
                   in case pinJSONToIPFS pinata metadata jsonOptions of
                        Inl error \<Rightarrow>
                          (error_response error,
                           [PinFileToIPFS stream imageOptions, PinJSONToIPFS metadata jsonOptions])
                      | Inr jsonResult \<Rightarrow>
                          (let metadataUrl = ''ipfs://'' @ IpfsHash jsonResult
                           in (res_json (JObj [(''metadataUrl'', JStr metadataUrl)])
                                 (res_status 200 new_response),
                               [PinFileToIPFS stream imageOptions,
                                PinJSONToIPFS metadata jsonOptions])))))"

subsection \<open>The upload middleware and the route\<close>

text \<open>
  In front of the handler the route runs \<^verbatim>\<open>upload.single('file')\<close>, multer with memory storage
  and a file size limit of 10 MiB. A multipart form is a list of parts in the order sent: a
  text field with its name and value, or a file part with its field name, file name and
  content.
\<close>

datatype form_part =
    TextField string string
  | FileField string string "8 word list"

datatype multer_error = LIMIT_UNEXPECTED_FILE | LIMIT_FILE_SIZE

definition fileSize_limit :: nat where
  "fileSize_limit = 10 * 1024 * 1024"

text \<open>
  What multer does with the file parts, with \<open>left\<close> files still allowed for the field: a
  part without a file name is skipped; a part under another field name, or one more file
  than allowed, is the error \<^verbatim>\<open>LIMIT_UNEXPECTED_FILE\<close>; a file over the limit is
  \<^verbatim>\<open>LIMIT_FILE_SIZE\<close>; the first error ends the upload. The accepted file becomes \<^verbatim>\<open>req.file\<close>.
\<close>

fun scan_files :: "string \<Rightarrow> nat \<Rightarrow> form_part list \<Rightarrow> multer_error + uploaded_file option" where
  "scan_files fieldname left [] = Inr None"
| "scan_files fieldname left (TextField k v # parts) = scan_files fieldname left parts"
| "scan_files fieldname left (FileField k filename content # parts) =
     (if filename = [] then scan_files fieldname left parts
      else if k \<noteq> fieldname \<or> left = 0 then Inl LIMIT_UNEXPECTED_FILE
      else if length content > fileSize_limit then Inl LIMIT_FILE_SIZE
      else (case scan_files fieldname (left - 1) parts of
              Inl e \<Rightarrow> Inl e
            | Inr _ \<Rightarrow> Inr (Some \<lparr>buffer = content, originalname = filename\<rparr>)))"

text \<open>
  The text fields become \<^verbatim>\<open>req.body\<close>: a name sent once is a string, a name sent several
  times is the array of its values, a name not sent is \<^verbatim>\<open>undefined\<close>. Field names with
  brackets, which multer turns into nested objects, are not modelled.
\<close>

fun field_values :: "string \<Rightarrow> form_part list \<Rightarrow> string list" where
  "field_values k [] = []"
| "field_values k (TextField k' v # parts) =
     (if k' = k then v # field_values k parts else field_values k parts)"
| "field_values k (FileField k' filename content # parts) = field_values k parts"

definition text_field :: "string \<Rightarrow> form_part list \<Rightarrow> jsval" where
  "text_field k parts =
     (case field_values k parts of
        [] \<Rightarrow> JUndefined
      | [v] \<Rightarrow> JStr v
      | vs \<Rightarrow> JArr (map JStr vs))"

definition upload_single :: "string \<Rightarrow> form_part list \<Rightarrow> multer_error + request" where
  "upload_single fieldname parts =
     (case scan_files fieldname 1 parts of
        Inl e \<Rightarrow> Inl e
      | Inr f \<Rightarrow>
          Inr \<lparr>req_file = f,
               req_body = Some \<lparr>body_metaName = text_field ''metaName'' parts,
                                body_metaDescription = text_field ''metaDescription'' parts,
                                body_properties = text_field ''properties'' parts\<rparr>\<rparr>)"

text \<open>
  A request to the route is a multipart form, or something else, which multer passes on
  untouched with whatever body (if any) the JSON parser left.
\<close>

datatype http_request =
    Multipart "form_part list"
  | NotMultipart "form_body option"

text \<open>
  An error of the middleware goes to Express's default error handler, since the server
  registers none of its own: the status is 500 (a multer error carries no status) and the
  body is an HTML page, not JSON.
\<close>

definition express_error_response :: response where
  "express_error_response = \<lparr>statusCode = 500, headers = [], body = None\<rparr>"

text \<open>The route \<^verbatim>\<open>POST /api/pin-image\<close>: the middleware, then the handler.\<close>

definition post_pin_image ::
  "(string \<Rightarrow> jsval option) \<Rightarrow> pinata_client \<Rightarrow> http_request
     \<Rightarrow> response \<times> upstream_call list" where
  "post_pin_image json_parse pinata request =
     (case request of
        Multipart parts \<Rightarrow>
          (case upload_single ''file'' parts of
             Inl e \<Rightarrow> (express_error_response, [])
           | Inr req \<Rightarrow> pin_image json_parse pinata req)
      | NotMultipart b \<Rightarrow> pin_image json_parse pinata \<lparr>req_file = None, req_body = b\<rparr>)"




text \<open>The metadata documents among the upstream calls: what the request stored.\<close>

fun pinned_metadata :: "upstream_call list \<Rightarrow> nft_metadata list" where
  "pinned_metadata [] = []"
| "pinned_metadata (PinJSONToIPFS md opts # cs) = md # pinned_metadata cs"
| "pinned_metadata (c # cs) = pinned_metadata cs"

fun is_unpin :: "upstream_call \<Rightarrow> bool" where
  "is_unpin (Unpin h) = True"
| "is_unpin c = False"

text \<open>The same request with the \<^verbatim>\<open>properties\<close> field left out of the form.\<close>

definition without_properties :: "request \<Rightarrow> request" where
  "without_properties req =
     req\<lparr>req_body := map_option (\<lambda>b. b\<lparr>body_properties := JUndefined\<rparr>) (req_body req)\<rparr>"

text \<open>
  A text field as the interface description puts it: the trimmed field when it is a string
  that is not empty after trimming, the fixed default otherwise.
\<close>

definition trimmed_or_default :: "jsval \<Rightarrow> string \<Rightarrow> string" where
  "trimmed_or_default v dflt =
     (case v of JStr s \<Rightarrow> (if js_trim s \<noteq> [] then js_trim s else dflt) | _ \<Rightarrow> dflt)"

text \<open>Pinning clients for the examples: one that pins everything, two that fail.\<close>

definition example_pinata :: pinata_client where
  "example_pinata =
     \<lparr>pinFileToIPFS = (\<lambda>stream opts. Inr \<lparr>IpfsHash = ''QmImage''\<rparr>),
      pinJSONToIPFS = (\<lambda>md opts. Inr \<lparr>IpfsHash = ''QmMeta''\<rparr>)\<rparr>"

definition example_pinata_down :: pinata_client where
  "example_pinata_down =
     \<lparr>pinFileToIPFS = (\<lambda>stream opts. Inl (JObj [(''message'', JStr ''ECONNREFUSED'')])),
      pinJSONToIPFS = (\<lambda>md opts. Inr \<lparr>IpfsHash = ''QmMeta''\<rparr>)\<rparr>"

definition example_pinata_json_down :: pinata_client where
  "example_pinata_json_down =
     \<lparr>pinFileToIPFS = (\<lambda>stream opts. Inr \<lparr>IpfsHash = ''QmImage''\<rparr>),
      pinJSONToIPFS = (\<lambda>md opts. Inl (JObj [(''message'', JStr ''ECONNREFUSED'')]))\<rparr>"

definition example_file :: uploaded_file where
  "example_file = \<lparr>buffer = [137, 80, 78, 71], originalname = ''deed.png''\<rparr>"

definition example_request :: "jsval \<Rightarrow> jsval \<Rightarrow> jsval \<Rightarrow> request" where
  "example_request n d p =
     \<lparr>req_file = Some example_file,
      req_body = Some \<lparr>body_metaName = n, body_metaDescription = d, body_properties = p\<rparr>\<rparr>"

section \<open>The unified wallet (web3authIntegration.ts, useUnifiedWallet)\<close>

subsection \<open>Signer construction\<close>

text \<open>
  The secret key of a derived account as \<^verbatim>\<open>createWeb3AuthSigner\<close> tells its shapes apart: a
  \<^verbatim>\<open>Uint8Array\<close>, an array of (integer) numbers, or anything else.
\<close>

datatype secret_key =
    SkUint8Array "8 word list"
  | SkArray "int list"
  | SkOther

record algorand_account =
  address :: string
  secretKey :: secret_key
  mnemonic :: string

datatype wallet_error = InvalidKeyMaterial

text \<open>
  A transaction signer is either the one \<^verbatim>\<open>algosdk.makeBasicAccountTransactionSigner\<close> builds
  from an address and a key, or the function a browser wallet supplies.
\<close>

datatype 's transaction_signer =
    BasicAccountTransactionSigner string "8 word list"
  | ProvidedSigner 's

text \<open>\<^verbatim>\<open>Uint8Array.from(sk)\<close> reduces each number modulo 256.\<close>

definition Uint8Array_from :: "int list \<Rightarrow> 8 word list" where
  "Uint8Array_from ns = map word_of_int ns"

definition createWeb3AuthSigner :: "algorand_account \<Rightarrow> wallet_error + 's transaction_signer" where
  "createWeb3AuthSigner account =
     (let sk = secretKey account;
          addr = address account
      in case sk of
           SkUint8Array bytes \<Rightarrow> Inr (BasicAccountTransactionSigner addr bytes)
         | SkArray ns \<Rightarrow> Inr (BasicAccountTransactionSigner addr (Uint8Array_from ns))
         | SkOther \<Rightarrow> Inl InvalidKeyMaterial)"

subsection \<open>The two upstream states and the unified state\<close>

text \<open>
  What \<^verbatim>\<open>useWeb3Auth()\<close> and \<^verbatim>\<open>useWallet()\<close> return, as far as the hook reads them. Both
  objects carry more than that; the rest is the extension slot of the record. User info,
  callbacks, the wallet list and the active wallet are opaque to the hook.
\<close>

record ('u, 'f) web3auth_context =
  w3a_isConnected :: bool
  w3a_isLoading :: bool
  w3a_error :: "string option"
  w3a_algorandAccount :: "algorand_account option"
  w3a_userInfo :: "'u option"
  w3a_login :: 'f
  w3a_logout :: 'f

record ('s, 'w, 'a) wallet_context =
  tw_activeAddress :: "string option"
  tw_transactionSigner :: 's
  tw_wallets :: 'w
  tw_activeWallet :: 'a

datatype wallet_type = Web3auth | Traditional

record ('u, 'f) unified_web3auth =
  algorandAccount :: "algorand_account option"
  userInfo :: "'u option"
  login :: 'f
  logout :: 'f

record ('w, 'a) unified_traditional =
  wallets :: 'w
  activeWallet :: 'a

record ('s, 'u, 'f, 'w, 'a) UnifiedWalletState =
  activeAddress :: "string option"
  signer :: "'s transaction_signer option"
  walletType :: "wallet_type option"
  isConnected :: bool
  isLoading :: bool
  error :: "string option"
  web3auth :: "('u, 'f) unified_web3auth"
  traditional :: "('w, 'a) unified_traditional"

text \<open>
  The body of the \<^verbatim>\<open>useMemo\<close> callback in \<^verbatim>\<open>useUnifiedWallet\<close>. Its dependency list names
  every field it reads, so the hook's value is this function of the two current states.
  \<^verbatim>\<open>if (traditional.activeAddress)\<close> is a truthiness test: \<^verbatim>\<open>null\<close> and the empty string fail
  it. An exception thrown while the signer is built leaves the callback.
\<close>

definition useUnifiedWallet ::
  "('u, 'f, 'x) web3auth_context_scheme \<Rightarrow> ('s, 'w, 'a, 'y) wallet_context_scheme
     \<Rightarrow> wallet_error + ('s, 'u, 'f, 'w, 'a) UnifiedWalletState" where
  "useUnifiedWallet w3a trad =
     (case (if w3a_isConnected w3a then w3a_algorandAccount w3a else None) of
        Some account \<Rightarrow>
          (case createWeb3AuthSigner account of
             Inl e \<Rightarrow> Inl e
           | Inr sg \<Rightarrow>
               Inr \<lparr>activeAddress = Some (address account),
                    signer = Some sg,
                    walletType = Some Web3auth,
                    isConnected = True,
                    isLoading = w3a_isLoading w3a,
                    error = w3a_error w3a,
                    web3auth = \<lparr>algorandAccount = Some account,
                                userInfo = w3a_userInfo w3a,
                                login = w3a_login w3a,
                                logout = w3a_logout w3a\<rparr>,
                    traditional = \<lparr>wallets = tw_wallets trad,
                                   activeWallet = tw_activeWallet trad\<rparr>\<rparr>)
      | None \<Rightarrow>
          (if tw_activeAddress trad \<noteq> None \<and> tw_activeAddress trad \<noteq> Some []
           then Inr \<lparr>activeAddress = tw_activeAddress trad,
                     signer = Some (ProvidedSigner (tw_transactionSigner trad)),
                     walletType = Some Traditional,
                     isConnected = True,
                     isLoading = False,
                     error = None,
                     web3auth = \<lparr>algorandAccount = None,
                                 userInfo = None,
                                 login = w3a_login w3a,
                                 logout = w3a_logout w3a\<rparr>,
                     traditional = \<lparr>wallets = tw_wallets trad,
                                    activeWallet = tw_activeWallet trad\<rparr>\<rparr>
           else Inr \<lparr>activeAddress = None,
                     signer = None,
                     walletType = None,
                     isConnected = False,
                     isLoading = w3a_isLoading w3a,
                     error = w3a_error w3a,
                     web3auth = \<lparr>algorandAccount = None,
                                 userInfo = None,
                                 login = w3a_login w3a,
                                 logout = w3a_logout w3a\<rparr>,
                     traditional = \<lparr>wallets = tw_wallets trad,
                                    activeWallet = tw_activeWallet trad\<rparr>\<rparr>))"

text \<open>
  A browser-wallet state that also reports a loading flag and an error of its own, in the
  extension slot the hook never reads.
\<close>

record wallet_status =
  wallet_isLoading :: bool
  wallet_error :: "string option"

text \<open>States for the examples.\<close>

definition example_account :: algorand_account where
  "example_account =
     \<lparr>address = ''SOCIALADDRESSX'', secretKey = SkUint8Array [1, 2, 3], mnemonic = ''abandon''\<rparr>"

definition example_broken_account :: algorand_account where
  "example_broken_account =
     \<lparr>address = ''SOCIALADDRESSX'', secretKey = SkOther, mnemonic = ''abandon''\<rparr>"

definition example_web3auth ::
  "bool \<Rightarrow> algorand_account option \<Rightarrow> bool \<Rightarrow> string option \<Rightarrow> (unit, nat) web3auth_context" where
  "example_web3auth connected account loading err =
     \<lparr>w3a_isConnected = connected, w3a_isLoading = loading, w3a_error = err,
      w3a_algorandAccount = account, w3a_userInfo = None, w3a_login = 1, w3a_logout = 2\<rparr>"

definition example_wallet :: "string option \<Rightarrow> (nat, unit, unit) wallet_context" where
  "example_wallet addr =
     \<lparr>tw_activeAddress = addr, tw_transactionSigner = 7, tw_wallets = (), tw_activeWallet = ()\<rparr>"

definition example_wallet_status ::
  "string option \<Rightarrow> bool \<Rightarrow> string option \<Rightarrow> (nat, unit, unit, wallet_status) wallet_context_scheme" where
  "example_wallet_status addr loading err =
     wallet_context.extend (example_wallet addr) \<lparr>wallet_isLoading = loading, wallet_error = err\<rparr>"

section \<open>Properties\<close>

subsection \<open>Strings and digits\<close>

declare nat_toString.simps [simp del]

lemma digit_val_digit_char: "digit_val (digit_char k) = k mod 10"
  by (simp add: digit_val_def digit_char_def) 

lemma is_digit_digit_char: "is_digit (digit_char k)"
proof -
  have "k mod 10 < 10" by simp
  then have "(48 + k mod 10) mod 256 = 48 + k mod 10" by simp
  then show ?thesis by (simp add: is_digit_def digit_char_def)
qed

lemma nat_toString_digits1: "digits1 (nat_toString n)"
proof (induction n rule: nat_toString.induct)
  case (1 n)
  show ?case
  proof (cases "n < 10")
    case True
    then show ?thesis by (simp add: nat_toString.simps [of n] digits1_def is_digit_digit_char)
  next
    case False
    with 1 show ?thesis by (simp add: nat_toString.simps [of n] digits1_def is_digit_digit_char)
  qed
qed

lemma digits_value_snoc: "digits_value (s @ [c]) = 10 * digits_value s + digit_val c"
  by (simp add: digits_value_def)

lemma digits_value_nat_toString: "digits_value (nat_toString n) = n"
proof (induction n rule: nat_toString.induct)
  case (1 n)
  show ?case
  proof (cases "n < 10")
    case True
    then show ?thesis
      by (simp add: nat_toString.simps [of n] digits_value_def digit_val_digit_char)
  next
    case False
    with 1 have "digits_value (nat_toString (n div 10)) = n div 10" by simp
    with False show ?thesis
      by (simp add: nat_toString.simps [of n] digits_value_snoc digit_val_digit_char)
  qed
qed

lemma digit_val_zero: "digit_val CHR ''0'' = 0"
  by (simp add: digit_val_def)

lemma foldl_zeros: "foldl (\<lambda>acc c. 10 * acc + digit_val c) 0 (replicate k CHR ''0'') = 0"
  by (induction k) (simp_all add: digit_val_zero)

lemma digits_value_leading_zeros: "digits_value (replicate k CHR ''0'' @ s) = digits_value s"
  by (simp add: digits_value_def foldl_zeros)

lemma digits_value_zero_cons: "digits_value (CHR ''0'' # s) = digits_value s"
  using digits_value_leading_zeros [of 1 s] by simp

lemma not_whitespace_digit: "is_digit c \<Longrightarrow> \<not> js_whitespace c"
  by (auto simp: is_digit_def js_whitespace_def)

lemma dropWhile_hd_id: "s \<noteq> [] \<Longrightarrow> \<not> P (hd s) \<Longrightarrow> dropWhile P s = s"
  by (cases s) simp_all

lemma js_trim_id:
  assumes "s \<noteq> []" "\<not> js_whitespace (hd s)" "\<not> js_whitespace (last s)"
  shows "js_trim s = s"
proof -
  have a: "dropWhile js_whitespace s = s"
    using assms(1,2) by (rule dropWhile_hd_id)
  have "rev s \<noteq> []" "\<not> js_whitespace (hd (rev s))"
    using assms(1,3) by (simp_all add: hd_rev)
  then have "dropWhile js_whitespace (rev s) = rev s"
    by (rule dropWhile_hd_id)
  with a show ?thesis by (simp add: js_trim_def)
qed

lemma is_digit_not_dot: "is_digit c \<Longrightarrow> c \<noteq> CHR ''.''"
  by (auto simp: is_digit_def)

lemma not_digit_dot: "\<not> is_digit CHR ''.''"
  by (simp add: is_digit_def)

lemma js_split_no_sep: "sep \<notin> set s \<Longrightarrow> js_split sep s = [s]"
  by (induction s) auto

lemma js_split_one_sep:
  "sep \<notin> set a \<Longrightarrow> sep \<notin> set b \<Longrightarrow> js_split sep (a @ sep # b) = [a, b]"
  by (induction a) (auto simp: js_split_no_sep)

lemma digits_no_dot: "list_all is_digit s \<Longrightarrow> CHR ''.'' \<notin> set s"
  by (auto simp: list_all_iff dest: is_digit_not_dot)

lemma takeWhile_digits_dot:
  "list_all is_digit a \<Longrightarrow> takeWhile is_digit (a @ CHR ''.'' # b) = a"
  by (induction a) (auto simp: not_digit_dot)

lemma dropWhile_digits_dot:
  "list_all is_digit a \<Longrightarrow> dropWhile is_digit (a @ CHR ''.'' # b) = CHR ''.'' # b"
  by (induction a) (auto simp: not_digit_dot)

lemma regex_digits_dot_digits:
  "digits1 a \<Longrightarrow> digits1 b \<Longrightarrow> amount_regex_test (a @ CHR ''.'' # b)"
  by (simp add: amount_regex_test_def digits1_def takeWhile_digits_dot dropWhile_digits_dot)

lemma trim_digits_dot_digits:
  assumes "digits1 a" "digits1 b"
  shows "js_trim (a @ CHR ''.'' # b) = a @ CHR ''.'' # b"
proof (rule js_trim_id)
  show "a @ CHR ''.'' # b \<noteq> []" by simp
  from assms(1) show "\<not> js_whitespace (hd (a @ CHR ''.'' # b))"
    by (cases a) (auto simp: digits1_def not_whitespace_digit)
  from assms(2) have "b \<noteq> []" "is_digit (last b)"
    by (auto simp: digits1_def list_all_iff)
  then show "\<not> js_whitespace (last (a @ CHR ''.'' # b))"
    by (simp add: not_whitespace_digit)
qed

lemma BigInt_digits: "list_all is_digit s \<Longrightarrow> BigInt s = Some (int (digits_value s))"
  by (simp add: BigInt_def)

lemma is_digit_zero: "is_digit CHR ''0''"
  by (simp add: is_digit_def)

lemma parseAmount_trimmed_point:
  assumes t: "js_trim s = a @ CHR ''.'' # b" and "digits1 a" "digits1 b"
  shows "parseAmount s d =
    (if d < length b then Inl (TooManyDecimalPlaces d)
     else Inr (int (digits_value (a @ b @ replicate (d - length b) CHR ''0''))))"
proof -
  let ?t = "a @ CHR ''.'' # b"
  have r: "amount_regex_test ?t" using assms(2,3) by (rule regex_digits_dot_digits)
  have sp: "js_split CHR ''.'' ?t = [a, b]"
    using assms(2,3) by (simp add: js_split_one_sep digits_no_dot digits1_def)
  have dg: "list_all is_digit (a @ b @ replicate (d - length b) CHR ''0'')"
    using assms(2,3) by (auto simp: digits1_def list_all_iff is_digit_zero)
  show ?thesis
    using t r sp BigInt_digits [OF dg] by (simp add: parseAmount_def Let_def padEnd_def)
qed

lemma parseAmount_digits_dot_digits:
  assumes "digits1 a" "digits1 b"
  shows "parseAmount (a @ CHR ''.'' # b) d =
    (if d < length b then Inl (TooManyDecimalPlaces d)
     else Inr (int (digits_value (a @ b @ replicate (d - length b) CHR ''0''))))"
  using trim_digits_dot_digits [OF assms] assms by (rule parseAmount_trimmed_point)

lemma slice_index_neg: "0 < d \<Longrightarrow> slice_index len (- int d) = len - d"
  by (simp add: slice_index_def max_def nat_diff_distrib)

lemma slice_head: "0 < d \<Longrightarrow> js_slice s 0 (Some (- int d)) = take (length s - d) s"
  by (simp add: js_slice_def slice_index_neg Let_def) (simp add: slice_index_def)

lemma slice_tail: "0 < d \<Longrightarrow> js_slice s (- int d) None = drop (length s - d) s"
  by (simp add: js_slice_def slice_index_neg Let_def)

lemma formatAmount_short:
  assumes "amount_toString nts a = s" "0 < d" "length s \<le> d"
  shows "formatAmount nts a d = ''0'' @ CHR ''.'' # (replicate (d - length s) CHR ''0'' @ s)"
  using assms by (simp add: formatAmount_def Let_def padStart_def)

lemma formatAmount_long:
  assumes "amount_toString nts a = s" "0 < d" "d < length s"
  shows "formatAmount nts a d = take (length s - d) s @ CHR ''.'' # drop (length s - d) s"
  using assms by (simp add: formatAmount_def Let_def slice_head slice_tail)

lemma parseAmount_formatAmount_roundtrip:
  assumes a: "amount_toString nts a = nat_toString m" and d: "0 < d"
  shows "parseAmount (formatAmount nts a d) d = Inr (int m)"
proof -
  let ?s = "nat_toString m"
  have ds: "digits1 ?s" by (rule nat_toString_digits1)
  have v: "digits_value ?s = m" by (rule digits_value_nat_toString)
  show ?thesis
  proof (cases "length ?s \<le> d")
    case True
    let ?fp = "replicate (d - length ?s) CHR ''0'' @ ?s"
    have z: "digits1 ''0''" by (simp add: digits1_def is_digit_zero)
    have fp: "digits1 ?fp"
      using ds by (auto simp: digits1_def list_all_iff is_digit_zero)
    have len: "length ?fp = d" using True by simp
    have "parseAmount (''0'' @ CHR ''.'' # ?fp) d
            = Inr (int (digits_value (''0'' @ ?fp @ replicate (d - length ?fp) CHR ''0'')))"
      using parseAmount_digits_dot_digits [OF z fp, of d] len by simp
    also have "digits_value (''0'' @ ?fp @ replicate (d - length ?fp) CHR ''0'') = m"
      using len v by (simp add: digits_value_zero_cons digits_value_leading_zeros)
    finally show ?thesis
      using formatAmount_short [OF a d True] by simp
  next
    case False
    then have lt: "d < length ?s" by simp
    let ?ip = "take (length ?s - d) ?s" and ?fp = "drop (length ?s - d) ?s"
    have ip: "digits1 ?ip"
      using ds lt by (auto simp: digits1_def list_all_iff dest: in_set_takeD)
    have fp: "digits1 ?fp"
      using ds lt d by (auto simp: digits1_def list_all_iff dest: in_set_dropD)
    have len: "length ?fp = d" using lt by simp
    have "parseAmount (?ip @ CHR ''.'' # ?fp) d
            = Inr (int (digits_value (?ip @ ?fp @ replicate (d - length ?fp) CHR ''0'')))"
      using parseAmount_digits_dot_digits [OF ip fp, of d] len by simp
    also have "digits_value (?ip @ ?fp @ replicate (d - length ?fp) CHR ''0'') = m"
      using len v by simp
    finally show ?thesis
      using formatAmount_long [OF a d lt] by simp
  qed
qed

lemma amount_toString_bigint:
  "0 \<le> n \<Longrightarrow> amount_toString nts (BigIntAmount n) = nat_toString (nat n)"
  by (simp add: amount_toString_def bigint_toString_def)

lemma amount_toString_safe_number:
  "0 \<le> x \<Longrightarrow> x < 2 ^ 53 \<Longrightarrow> amount_toString nts (NumberAmount x) = nat_toString (nat x)"
  by (simp add: amount_toString_def bigint_toString_def)

lemma takeWhile_all: "list_all P s \<Longrightarrow> takeWhile P s = s"
  by (induction s) auto

lemma dropWhile_all: "list_all P s \<Longrightarrow> dropWhile P s = []"
  by (induction s) auto

lemma regex_digits: "digits1 s \<Longrightarrow> amount_regex_test s"
  by (simp add: amount_regex_test_def digits1_def takeWhile_all dropWhile_all)

lemma regex_imp_unsigned_decimal:
  assumes "amount_regex_test s"
  shows "unsigned_decimal s"
proof -
  let ?ds = "takeWhile is_digit s" and ?rest = "dropWhile is_digit s"
  have s: "s = ?ds @ ?rest" by simp
  have ds: "digits1 ?ds"
    using assms by (auto simp: amount_regex_test_def digits1_def Let_def list_all_iff dest: set_takeWhileD)
  show ?thesis
  proof (cases ?rest)
    case Nil
    with s have "s = ?ds" by (metis append_Nil2)
    with ds show ?thesis by (simp add: unsigned_decimal_def)
  next
    case (Cons c fs)
    with assms have "c = CHR ''.''" "digits1 fs"
      by (auto simp: amount_regex_test_def digits1_def Let_def)
    moreover from s Cons have "s = ?ds @ c # fs" by simp
    ultimately show ?thesis using ds unfolding unsigned_decimal_def by blast
  qed
qed

lemma unsigned_decimal_iff: "unsigned_decimal s = amount_regex_test s"
proof
  assume "unsigned_decimal s"
  then show "amount_regex_test s"
    unfolding unsigned_decimal_def
    by (auto intro: regex_digits regex_digits_dot_digits)
next
  assume "amount_regex_test s"
  then show "unsigned_decimal s" by (rule regex_imp_unsigned_decimal)
qed

subsection \<open>Helper facts about the relay\<close>

lemma statusCode_error_response: "statusCode (error_response e) = 500"
  by (simp add: error_response_def res_json_def res_status_def new_response_def)

lemma js_trim_whitespace: "list_all js_whitespace s \<Longrightarrow> js_trim s = []"
  by (induction s) (simp_all add: js_trim_def)

lemma str_or_safeTrim: "str_or (safeTrim v) dflt = trimmed_or_default v dflt"
  by (cases v) (simp_all add: str_or_def safeTrim_def trimmed_or_default_def)

lemma pinned_metadata_pin_image:
  assumes "md \<in> set (pinned_metadata (snd (pin_image json_parse pinata req)))"
  shows "md_name md = str_or (safeTrim (field_metaName req)) ''NFT Example'' \<and>
         md_description md =
           str_or (safeTrim (field_metaDescription req)) ''This is an unchangeable NFT'' \<and>
         md_properties md = safeJsonParse json_parse (field_properties req) (JObj [])"
  using assms
  by (auto simp: pin_image_def Let_def split: option.splits sum.splits)

lemma pin_image_ok_pinned:
  assumes "statusCode (fst (pin_image json_parse pinata req)) = 200"
  shows "length (pinned_metadata (snd (pin_image json_parse pinata req))) = 1"
  using assms
  by (auto simp: pin_image_def Let_def statusCode_error_response res_json_def res_status_def
      new_response_def split: option.splits sum.splits)

lemma safeJsonParse_lenient:
  assumes "(\<forall>s. v \<noteq> JStr s) \<or> (\<exists>s. v = JStr s \<and> (js_trim s = [] \<or> json_parse s = None))"
  shows "safeJsonParse json_parse v fallback = fallback"
  using assms by (cases v) (auto simp: safeJsonParse_def)

lemma safeJsonParse_undefined: "safeJsonParse json_parse JUndefined fallback = fallback"
  by (simp add: safeJsonParse_def)

lemma field_without_properties:
  "field_properties (without_properties req) = JUndefined"
  "field_metaName (without_properties req) = field_metaName req"
  "field_metaDescription (without_properties req) = field_metaDescription req"
  "req_file (without_properties req) = req_file req"
  by (simp_all add: without_properties_def field_properties_def field_metaName_def
      field_metaDescription_def split: option.splits)

lemma pin_image_cong:
  assumes "req_file req' = req_file req"
    and "field_metaName req' = field_metaName req"
    and "field_metaDescription req' = field_metaDescription req"
    and "safeJsonParse json_parse (field_properties req') (JObj []) =
         safeJsonParse json_parse (field_properties req) (JObj [])"
  shows "pin_image json_parse pinata req' = pin_image json_parse pinata req"
  unfolding pin_image_def assms by (rule refl)



lemma pinned_names:
  assumes "md \<in> set (pinned_metadata (snd (pin_image json_parse pinata req)))"
  shows "md_name md =
           trimmed_or_default (case req_body req of None \<Rightarrow> JUndefined | Some b \<Rightarrow> body_metaName b)
             ''NFT Example'' \<and>
         md_description md =
           trimmed_or_default
             (case req_body req of None \<Rightarrow> JUndefined | Some b \<Rightarrow> body_metaDescription b)
             ''This is an unchangeable NFT''"
  using pinned_metadata_pin_image [OF assms]
  by (simp add: str_or_safeTrim field_metaName_def field_metaDescription_def)

lemma upload_single_body:
  "upload_single fieldname parts = Inr req \<Longrightarrow>
   req_body req = Some \<lparr>body_metaName = text_field ''metaName'' parts,
                        body_metaDescription = text_field ''metaDescription'' parts,
                        body_properties = text_field ''properties'' parts\<rparr>"
  by (auto simp: upload_single_def split: sum.splits)

lemma endsWith_iff: "endsWith s suffix \<longleftrightarrow> (\<exists>p. s = p @ suffix)"
proof
  assume "endsWith s suffix"
  then have "s = take (length s - length suffix) s @ suffix"
    by (metis append_take_drop_id endsWith_def)
  then show "\<exists>p. s = p @ suffix" ..
next
  assume "\<exists>p. s = p @ suffix"
  then show "endsWith s suffix" by (auto simp: endsWith_def)
qed

lemma health_fields:
  "statusCode (health now) = 200"
  "map_of (headers (health now)) ''Cache-Control'' = Some ''no-store''"
  "body (health now) = Some (JObj [(''ok'', JBool True), (''ts'', JNum now)])"
  "statusCode (health_v0 now) = 200"
  "map_of (headers (health_v0 now)) ''Cache-Control'' = Some ''no-store''"
  "body (health_v0 now) = Some (JObj [(''ok'', JBool True), (''ts'', JNum now)])"
  by (simp_all add: health_def health_v0_def res_json_def res_status_def res_set_def new_response_def)

lemma response_ts_health:
  "response_ts (health now) = JNum now"
  "response_ts (health_v0 now) = JNum now"
  by (simp_all add: response_ts_def health_fields)

lemma ts_values_health_calls: "ts_values (health_calls clock) = clock"
  by (induction clock) (simp_all add: ts_values_def health_calls_def response_ts_health)

lemma ts_values_health_v0_calls: "ts_values (health_v0_calls clock) = clock"
  by (induction clock) (simp_all add: ts_values_def health_v0_calls_def response_ts_health)

subsection \<open>The unified wallet: precedence\<close>

text \<open>
  C1. \<^verbatim>\<open>useUnifiedWallet\<close> resolves the two upstream states by a fixed precedence. If the
  social login is connected and has a derived account whose key is a byte array or an array
  of numbers, the result carries that account's address, the signer built from the account,
  and the wallet type \<^verbatim>\<open>web3auth\<close>, whatever the browser wallet reports. Otherwise, if the
  browser wallet has an active address that is neither \<^verbatim>\<open>null\<close> nor the empty string, the
  result carries that address, the wallet's own signer and the type \<^verbatim>\<open>traditional\<close>, and no
  social account. Otherwise address, signer and wallet type are all \<^verbatim>\<open>null\<close>. A connected
  account whose key is of neither kind makes the hook throw.
\<close>

theorem useUnifiedWallet_precedence:
  "(w3a_isConnected w \<and> w3a_algorandAccount w = Some account \<and> secretKey account \<noteq> SkOther
      \<longrightarrow> (\<exists>s sg. useUnifiedWallet w t = Inr s \<and>
             activeAddress s = Some (address account) \<and>
             createWeb3AuthSigner account = Inr sg \<and> signer s = Some sg \<and>
             walletType s = Some Web3auth)) \<and>
   (\<not> (w3a_isConnected w \<and> w3a_algorandAccount w \<noteq> None) \<and>
    tw_activeAddress t = Some addr \<and> addr \<noteq> []
      \<longrightarrow> (\<exists>s. useUnifiedWallet w t = Inr s \<and>
             activeAddress s = Some addr \<and>
             signer s = Some (ProvidedSigner (tw_transactionSigner t)) \<and>
             walletType s = Some Traditional \<and>
             algorandAccount (web3auth s) = None)) \<and>
   (\<not> (w3a_isConnected w \<and> w3a_algorandAccount w \<noteq> None) \<and>
    (tw_activeAddress t = None \<or> tw_activeAddress t = Some [])
      \<longrightarrow> (\<exists>s. useUnifiedWallet w t = Inr s \<and>
             activeAddress s = None \<and> signer s = None \<and> walletType s = None)) \<and>
   (w3a_isConnected w \<and> w3a_algorandAccount w = Some account \<and> secretKey account = SkOther
      \<longrightarrow> useUnifiedWallet w t = Inl InvalidKeyMaterial)"
proof (intro conjI impI)
  assume "w3a_isConnected w \<and> w3a_algorandAccount w = Some account \<and> secretKey account \<noteq> SkOther"
  then show "\<exists>s sg. useUnifiedWallet w t = Inr s \<and>
             activeAddress s = Some (address account) \<and>
             createWeb3AuthSigner account = Inr sg \<and> signer s = Some sg \<and>
             walletType s = Some Web3auth"
    by (cases "secretKey account")
       (simp_all add: useUnifiedWallet_def createWeb3AuthSigner_def Let_def)
next
  assume "\<not> (w3a_isConnected w \<and> w3a_algorandAccount w \<noteq> None) \<and>
    tw_activeAddress t = Some addr \<and> addr \<noteq> []"
  then show "\<exists>s. useUnifiedWallet w t = Inr s \<and>
             activeAddress s = Some addr \<and>
             signer s = Some (ProvidedSigner (tw_transactionSigner t)) \<and>
             walletType s = Some Traditional \<and>
             algorandAccount (web3auth s) = None"
    by (auto simp: useUnifiedWallet_def)
next
  assume "\<not> (w3a_isConnected w \<and> w3a_algorandAccount w \<noteq> None) \<and>
    (tw_activeAddress t = None \<or> tw_activeAddress t = Some [])"
  then show "\<exists>s. useUnifiedWallet w t = Inr s \<and>
             activeAddress s = None \<and> signer s = None \<and> walletType s = None"
    by (auto simp: useUnifiedWallet_def)
next
  assume "w3a_isConnected w \<and> w3a_algorandAccount w = Some account \<and> secretKey account = SkOther"
  then show "useUnifiedWallet w t = Inl InvalidKeyMaterial"
    by (simp add: useUnifiedWallet_def createWeb3AuthSigner_def)
qed

theorem useUnifiedWallet_precedence_witness:
  "(\<exists>s. useUnifiedWallet (example_web3auth True (Some example_account) False None)
           (example_wallet (Some ''WALLETADDRESSY'')) = Inr s \<and>
        activeAddress s = Some ''SOCIALADDRESSX'' \<and> walletType s = Some Web3auth) \<and>
   (\<exists>s. useUnifiedWallet (example_web3auth False (Some example_account) False None)
           (example_wallet (Some ''WALLETADDRESSY'')) = Inr s \<and>
        activeAddress s = Some ''WALLETADDRESSY'' \<and> signer s = Some (ProvidedSigner 7) \<and>
        walletType s = Some Traditional) \<and>
   (\<exists>s. useUnifiedWallet (example_web3auth False None False None) (example_wallet None) = Inr s \<and>
        activeAddress s = None \<and> signer s = None \<and> walletType s = None)"
proof -
  have k: "secretKey example_account \<noteq> SkOther" "address example_account = ''SOCIALADDRESSX''"
    by (simp_all add: example_account_def)
  have w: "w3a_isConnected (example_web3auth c a l e) = c"
    "w3a_algorandAccount (example_web3auth c a l e) = a" for c a l e
    by (simp_all add: example_web3auth_def)
  have t: "tw_activeAddress (example_wallet a) = a" "tw_transactionSigner (example_wallet a) = 7" for a
    by (simp_all add: example_wallet_def)
  have "\<exists>s. useUnifiedWallet (example_web3auth True (Some example_account) False None)
           (example_wallet (Some ''WALLETADDRESSY'')) = Inr s \<and>
        activeAddress s = Some ''SOCIALADDRESSX'' \<and> walletType s = Some Web3auth"
    using useUnifiedWallet_precedence [of "example_web3auth True (Some example_account) False None"
        example_account "example_wallet (Some ''WALLETADDRESSY'')" "[]"] k w
    by auto
  moreover have "\<exists>s. useUnifiedWallet (example_web3auth False (Some example_account) False None)
           (example_wallet (Some ''WALLETADDRESSY'')) = Inr s \<and>
        activeAddress s = Some ''WALLETADDRESSY'' \<and> signer s = Some (ProvidedSigner 7) \<and>
        walletType s = Some Traditional"
    using useUnifiedWallet_precedence [of "example_web3auth False (Some example_account) False None"
        example_account "example_wallet (Some ''WALLETADDRESSY'')" "''WALLETADDRESSY''"] w t
    by auto
  moreover have "\<exists>s. useUnifiedWallet (example_web3auth False None False None) (example_wallet None) = Inr s \<and>
        activeAddress s = None \<and> signer s = None \<and> walletType s = None"
    using useUnifiedWallet_precedence [of "example_web3auth False None False None"
        example_account "example_wallet None" "[]"] w t
    by auto
  ultimately show ?thesis by blast
qed

text \<open>
  The precedence does not hold for every pair of states: a connected account with unusable
  key material makes the hook throw instead of returning the account, and an active address
  that is the empty string is not \<^verbatim>\<open>null\<close> yet is treated as no address.
\<close>

theorem useUnifiedWallet_precedence_counterexample:
  "useUnifiedWallet (example_web3auth True (Some example_broken_account) False None)
      (example_wallet (Some ''WALLETADDRESSY'')) = Inl InvalidKeyMaterial \<and>
   useUnifiedWallet (example_web3auth False None False None) (example_wallet (Some [])) =
     Inr \<lparr>activeAddress = None, signer = None, walletType = None, isConnected = False,
          isLoading = False, error = None,
          web3auth = \<lparr>algorandAccount = None, userInfo = None, login = 1, logout = 2\<rparr>,
          traditional = \<lparr>wallets = (), activeWallet = ()\<rparr>\<rparr>"
  by (simp add: useUnifiedWallet_def example_web3auth_def example_wallet_def
      example_broken_account_def createWeb3AuthSigner_def)

subsection \<open>The upload handler\<close>




text \<open>
  C3. The two uploads are sequential. The first upstream call is the image pin. If it throws,
  it is the only call and the response is the 500 built from the thrown value. If it
  succeeds, the one further call is the metadata pin, whose document refers to the image's
  hash; if that throws, the response is again the 500, and on no path does the handler unpin
  anything.
\<close>

theorem pin_image_sequential:
  assumes "req_file req = Some file"
    and "pin_image json_parse pinata req = (res, calls)"
  shows "(\<exists>stream imageOptions rest.
            calls = PinFileToIPFS stream imageOptions # rest \<and>
            (case pinFileToIPFS pinata stream imageOptions of
               Inl e \<Rightarrow> rest = [] \<and> res = error_response e \<and> statusCode res = 500
             | Inr imageResult \<Rightarrow>
                 (\<exists>metadata jsonOptions.
                    rest = [PinJSONToIPFS metadata jsonOptions] \<and>
                    md_image metadata = ''ipfs://'' @ IpfsHash imageResult \<and>
                    (case pinJSONToIPFS pinata metadata jsonOptions of
                       Inl e \<Rightarrow> res = error_response e \<and> statusCode res = 500
                     | Inr jsonResult \<Rightarrow> statusCode res = 200)))) \<and>
         \<not> list_ex is_unpin calls"
proof -
  define metaName where "metaName = str_or (safeTrim (field_metaName req)) ''NFT Example''"
  define stream where
    "stream = \<lparr>stream_data = buffer file, stream_path = str_or (originalname file) ''upload''\<rparr>"
  define imageOptions where
    "imageOptions = \<lparr>pinataMetadata_name = str_or (originalname file) (metaName @ '' Image'')\<rparr>"
  note defs = metaName_def stream_def imageOptions_def
  show ?thesis
  proof (cases "pinFileToIPFS pinata stream imageOptions")
    case (Inl e)
    with assms have "res = error_response e" "calls = [PinFileToIPFS stream imageOptions]"
      by (simp_all add: pin_image_def Let_def defs)
    with Inl show ?thesis
      by (simp add: statusCode_error_response)
  next
    case (Inr imageResult)
    define metadata where
      "metadata = \<lparr>md_name = metaName,
                    md_description =
                      str_or (safeTrim (field_metaDescription req)) ''This is an unchangeable NFT'',
                    md_image = ''ipfs://'' @ IpfsHash imageResult,
                    md_properties = safeJsonParse json_parse (field_properties req) (JObj [])\<rparr>"
    define jsonOptions where "jsonOptions = \<lparr>pinataMetadata_name = metaName @ '' Metadata''\<rparr>"
    have calls: "calls = [PinFileToIPFS stream imageOptions, PinJSONToIPFS metadata jsonOptions]"
      using assms Inr
      by (simp add: pin_image_def Let_def defs metadata_def jsonOptions_def split: sum.splits)
    have img: "md_image metadata = ''ipfs://'' @ IpfsHash imageResult"
      by (simp add: metadata_def)
    have res: "case pinJSONToIPFS pinata metadata jsonOptions of
                 Inl e \<Rightarrow> res = error_response e \<and> statusCode res = 500
               | Inr jsonResult \<Rightarrow> statusCode res = 200"
      using assms Inr
      by (auto simp: pin_image_def Let_def defs metadata_def jsonOptions_def
          statusCode_error_response res_json_def res_status_def new_response_def
          split: sum.splits)
    from calls img res Inr show ?thesis by simp
  qed
qed

theorem pin_image_sequential_witness:
  "pin_image example_json_parse example_pinata_down (example_request JUndefined JUndefined JUndefined) =
     (error_response (JObj [(''message'', JStr ''ECONNREFUSED'')]),
      [PinFileToIPFS \<lparr>stream_data = [137, 80, 78, 71], stream_path = ''deed.png''\<rparr>
         \<lparr>pinataMetadata_name = ''deed.png''\<rparr>]) \<and>
   \<not> list_ex is_unpin (snd (pin_image example_json_parse example_pinata_json_down
         (example_request JUndefined JUndefined JUndefined))) \<and>
   statusCode (fst (pin_image example_json_parse example_pinata_json_down
         (example_request JUndefined JUndefined JUndefined))) = 500"
proof -
  let ?req = "example_request JUndefined JUndefined JUndefined"
  have f: "req_file ?req = Some example_file"
    by (simp add: example_request_def)
  have a: "pin_image example_json_parse example_pinata_down ?req =
     (error_response (JObj [(''message'', JStr ''ECONNREFUSED'')]),
      [PinFileToIPFS \<lparr>stream_data = [137, 80, 78, 71], stream_path = ''deed.png''\<rparr>
         \<lparr>pinataMetadata_name = ''deed.png''\<rparr>])"
    by (simp add: pin_image_def example_request_def example_file_def example_pinata_down_def
        Let_def str_or_def)
  have b: "pin_image example_json_parse example_pinata_json_down ?req =
     (fst (pin_image example_json_parse example_pinata_json_down ?req),
      snd (pin_image example_json_parse example_pinata_json_down ?req))"
    by simp
  have c: "pinFileToIPFS example_pinata_json_down s opts = Inr \<lparr>IpfsHash = ''QmImage''\<rparr>" for s opts
    by (simp add: example_pinata_json_down_def)
  have d: "pinJSONToIPFS example_pinata_json_down md opts = Inl (JObj [(''message'', JStr ''ECONNREFUSED'')])" for md opts
    by (simp add: example_pinata_json_down_def)
  show ?thesis
    using pin_image_sequential [OF f b] a c d
    by (auto simp: statusCode_error_response)
qed

subsection \<open>Cross-origin policy\<close>

text \<open>
  C4. The origin decision of both server files. A request without an Origin header, or with
  an empty one, is allowed. Any other origin is allowed exactly if it is in the allow-list or
  its URL parses to a hostname ending in \<^verbatim>\<open>.vercel.app\<close>; in the \<open>_v0\<close> copy it is also
  allowed whenever the allow-list contains the wildcard entry \<^verbatim>\<open>*\<close>.
\<close>

theorem cors_origin_decision:
  "(cors_origin url_hostname allowed origin \<longleftrightarrow>
      origin = None \<or> origin = Some [] \<or>
      (\<exists>org. origin = Some org \<and>
         (org \<in> set allowed \<or>
          (\<exists>host p. url_hostname org = Some host \<and> host = p @ ''.vercel.app'')))) \<and>
   (cors_origin_v0 url_hostname allowed origin \<longleftrightarrow>
      origin = None \<or> origin = Some [] \<or>
      (\<exists>org. origin = Some org \<and>
         (''*'' \<in> set allowed \<or> org \<in> set allowed \<or>
          (\<exists>host p. url_hostname org = Some host \<and> host = p @ ''.vercel.app''))))"
  by (auto simp: cors_origin_def cors_origin_v0_def endsWith_iff split: option.splits)

theorem cors_origin_decision_witness:
  "cors_origin example_hostname [''http://localhost:5173''] (Some ''https://my-fork.vercel.app'') \<and>
   \<not> cors_origin example_hostname [''http://localhost:5173''] (Some ''https://evil.example'')"
proof -
  have h1: "example_hostname ''https://my-fork.vercel.app'' = Some (''my-fork'' @ ''.vercel.app'')"
    by (simp add: example_hostname_def)
  have h2: "example_hostname ''https://evil.example'' = Some ''evil.example''"
    by (simp add: example_hostname_def)
  have n: "\<not> (\<exists>p. ''evil.example'' = p @ ''.vercel.app'')"
    unfolding endsWith_iff [symmetric] by (simp add: endsWith_def)
  have a: "cors_origin example_hostname [''http://localhost:5173''] (Some ''https://my-fork.vercel.app'')"
    using cors_origin_decision [of example_hostname "[''http://localhost:5173'']"
        "Some ''https://my-fork.vercel.app''"] h1
    by blast
  have b: "\<not> cors_origin example_hostname [''http://localhost:5173''] (Some ''https://evil.example'')"
    using cors_origin_decision [of example_hostname "[''http://localhost:5173'']"
        "Some ''https://evil.example''"] h2 n
    by simp
  from a b show ?thesis ..
qed

text \<open>
  With \<^verbatim>\<open>ALLOWED_ORIGINS\<close> unset the allow-list of the \<open>_v0\<close> copy is the wildcard alone, and an
  origin that is neither listed nor on \<^verbatim>\<open>.vercel.app\<close> is allowed.
\<close>

theorem cors_wildcard_counterexample:
  "cors_origin_v0 example_hostname (allowedOrigins_v0 None) (Some ''https://evil.example'') \<and>
   ''https://evil.example'' \<notin> set (allowedOrigins_v0 None) \<and>
   example_hostname ''https://evil.example'' = Some ''evil.example'' \<and>
   \<not> endsWith ''evil.example'' ''.vercel.app''"
  by (simp add: cors_origin_v0_def allowedOrigins_v0_def example_hostname_def endsWith_def
      str_or_def js_trim_def js_whitespace_def)

subsection \<open>The unified wallet: failures\<close>

text \<open>
  C5. Building the signer fails exactly when the key material is neither a byte array nor an
  array, and it fails when the signer is built, not when it is used. The hook builds the
  signer while it resolves, so resolution throws exactly when the social login is connected
  with an account whose key material is of that kind; in every other pair of states it
  returns a state.
\<close>

theorem useUnifiedWallet_throws_iff:
  "(useUnifiedWallet w t = Inl e \<longleftrightarrow>
      w3a_isConnected w \<and>
      (\<exists>account. w3a_algorandAccount w = Some account \<and> secretKey account = SkOther)) \<and>
   ((createWeb3AuthSigner acct :: wallet_error + 's transaction_signer) = Inl e \<longleftrightarrow>
      secretKey acct = SkOther)"
proof
  show "useUnifiedWallet w t = Inl e \<longleftrightarrow>
      w3a_isConnected w \<and>
      (\<exists>account. w3a_algorandAccount w = Some account \<and> secretKey account = SkOther)"
    by (cases e)
       (auto simp: useUnifiedWallet_def createWeb3AuthSigner_def Let_def
          split: option.splits sum.splits secret_key.splits if_splits)
  show "(createWeb3AuthSigner acct :: wallet_error + 's transaction_signer) = Inl e \<longleftrightarrow>
      secretKey acct = SkOther"
    by (cases e) (simp add: createWeb3AuthSigner_def Let_def split: secret_key.splits)
qed

theorem useUnifiedWallet_throws_iff_witness:
  "useUnifiedWallet (example_web3auth True (Some example_account) False None) (example_wallet None)
     \<noteq> Inl InvalidKeyMaterial \<and>
   useUnifiedWallet (example_web3auth False (Some example_broken_account) False None)
     (example_wallet None) \<noteq> Inl InvalidKeyMaterial \<and>
   (createWeb3AuthSigner example_account :: wallet_error + nat transaction_signer)
     \<noteq> Inl InvalidKeyMaterial"
  using useUnifiedWallet_throws_iff
      [of "example_web3auth True (Some example_account) False None" "example_wallet None"
          InvalidKeyMaterial example_account]
    useUnifiedWallet_throws_iff
      [of "example_web3auth False (Some example_broken_account) False None" "example_wallet None"
          InvalidKeyMaterial example_account]
  by (simp add: example_web3auth_def example_account_def createWeb3AuthSigner_def)

text \<open>
  Resolution does throw: with a connected account whose secret key is unusable the hook
  fails at once, before any transaction is signed.
\<close>

theorem useUnifiedWallet_throws_counterexample:
  "(createWeb3AuthSigner example_broken_account :: wallet_error + nat transaction_signer)
     = Inl InvalidKeyMaterial \<and>
   useUnifiedWallet (example_web3auth True (Some example_broken_account) True None)
     (example_wallet None) = Inl InvalidKeyMaterial"
  by (simp add: useUnifiedWallet_def createWeb3AuthSigner_def example_web3auth_def
      example_broken_account_def)

subsection \<open>The unified wallet: loading and error\<close>

text \<open>
  C6. The loading flag and the error of the unified state: in the \<^verbatim>\<open>web3auth\<close> branch they
  are those of the social-login state; in the \<^verbatim>\<open>traditional\<close> branch they are the constants
  \<^verbatim>\<open>false\<close> and \<^verbatim>\<open>null\<close>, whatever either upstream state holds; with no active account they
  are again those of the social-login state.
\<close>

theorem useUnifiedWallet_loading_error:
  assumes "useUnifiedWallet w t = Inr s"
  shows "(walletType s = Some Web3auth \<longrightarrow> isLoading s = w3a_isLoading w \<and> error s = w3a_error w) \<and>
         (walletType s = Some Traditional \<longrightarrow> isLoading s = False \<and> error s = None) \<and>
         (walletType s = None \<longrightarrow> isLoading s = w3a_isLoading w \<and> error s = w3a_error w)"
  using assms
  by (auto simp: useUnifiedWallet_def split: option.splits sum.splits if_splits)

theorem useUnifiedWallet_loading_error_witness:
  "useUnifiedWallet (example_web3auth True (Some example_account) True (Some ''popup closed''))
     (example_wallet (Some ''WALLETADDRESSY'')) =
   Inr \<lparr>activeAddress = Some ''SOCIALADDRESSX'',
        signer = Some (BasicAccountTransactionSigner ''SOCIALADDRESSX'' [1, 2, 3]),
        walletType = Some Web3auth, isConnected = True,
        isLoading = True, error = Some ''popup closed'',
        web3auth = \<lparr>algorandAccount = Some example_account, userInfo = None,
                    login = 1, logout = 2\<rparr>,
        traditional = \<lparr>wallets = (), activeWallet = ()\<rparr>\<rparr>"
proof -
  let ?w = "example_web3auth True (Some example_account) True (Some ''popup closed'')"
  let ?t = "example_wallet (Some ''WALLETADDRESSY'')"
  let ?s = "\<lparr>activeAddress = Some ''SOCIALADDRESSX'',
        signer = Some (BasicAccountTransactionSigner ''SOCIALADDRESSX'' [1, 2, 3]),
        walletType = Some Web3auth, isConnected = True,
        isLoading = True, error = Some ''popup closed'',
        web3auth = \<lparr>algorandAccount = Some example_account, userInfo = None,
                    login = 1 :: nat, logout = 2\<rparr>,
        traditional = \<lparr>wallets = (), activeWallet = ()\<rparr>\<rparr>"
  have r: "useUnifiedWallet ?w ?t = Inr ?s"
    by (simp add: useUnifiedWallet_def createWeb3AuthSigner_def example_web3auth_def
        example_wallet_def example_account_def)
  have "isLoading ?s = w3a_isLoading ?w \<and> error ?s = w3a_error ?w"
    using useUnifiedWallet_loading_error [OF r] by simp
  with r show ?thesis by simp
qed

text \<open>
  A browser wallet that reports itself as loading and in error is still resolved to a state
  that is neither: nothing is passed through from it.
\<close>

theorem useUnifiedWallet_loading_error_counterexample:
  "useUnifiedWallet (example_web3auth False None False None)
      (example_wallet_status (Some ''WALLETADDRESSY'') True (Some ''rejected'')) =
     Inr \<lparr>activeAddress = Some ''WALLETADDRESSY'', signer = Some (ProvidedSigner 7),
          walletType = Some Traditional, isConnected = True,
          isLoading = False, error = None,
          web3auth = \<lparr>algorandAccount = None, userInfo = None, login = 1, logout = 2\<rparr>,
          traditional = \<lparr>wallets = (), activeWallet = ()\<rparr>\<rparr> \<and>
   wallet_isLoading (wallet_context.more
      (example_wallet_status (Some ''WALLETADDRESSY'') True (Some ''rejected''))) = True \<and>
   wallet_error (wallet_context.more
      (example_wallet_status (Some ''WALLETADDRESSY'') True (Some ''rejected''))) = Some ''rejected''"
  by (simp add: useUnifiedWallet_def example_web3auth_def example_wallet_status_def
      example_wallet_def wallet_context.defs)

subsection \<open>Lenient fields\<close>

text \<open>
  C7. The \<^verbatim>\<open>properties\<close> field is read leniently. When it is absent, not a string, empty
  after trimming, or rejected by \<^verbatim>\<open>JSON.parse\<close>, the parsed value is the empty object, the
  handler behaves exactly as for the same request without the field (so it goes on to the
  uploads), and every metadata document it pins has the empty object as its properties.
\<close>

theorem pin_image_properties_lenient:
  assumes has_file: "req_file req = Some file"
    and bad: "(\<forall>s. field_properties req \<noteq> JStr s) \<or>
              (\<exists>s. field_properties req = JStr s \<and> (js_trim s = [] \<or> json_parse s = None))"
  shows "safeJsonParse json_parse (field_properties req) (JObj []) = JObj [] \<and>
         pin_image json_parse pinata req = pin_image json_parse pinata (without_properties req) \<and>
         snd (pin_image json_parse pinata req) \<noteq> [] \<and>
         (\<forall>md \<in> set (pinned_metadata (snd (pin_image json_parse pinata req))).
            md_properties md = JObj [])"
proof (intro conjI ballI)
  show p: "safeJsonParse json_parse (field_properties req) (JObj []) = JObj []"
    using bad by (rule safeJsonParse_lenient)
  show "pin_image json_parse pinata req = pin_image json_parse pinata (without_properties req)"
    by (rule pin_image_cong [symmetric])
       (simp_all add: field_without_properties safeJsonParse_undefined p)
  show "snd (pin_image json_parse pinata req) \<noteq> []"
    using has_file by (simp add: pin_image_def Let_def split: sum.splits)
  fix md
  assume "md \<in> set (pinned_metadata (snd (pin_image json_parse pinata req)))"
  then show "md_properties md = JObj []"
    using p by (simp add: pinned_metadata_pin_image)
qed

theorem pin_image_properties_lenient_witness:
  "pin_image example_json_parse example_pinata
      (example_request (JStr ''Deed'') JUndefined (JStr ''not json'')) =
   pin_image example_json_parse example_pinata
      (without_properties (example_request (JStr ''Deed'') JUndefined (JStr ''not json''))) \<and>
   map md_properties (pinned_metadata (snd (pin_image example_json_parse example_pinata
      (example_request (JStr ''Deed'') JUndefined (JStr ''not json''))))) = [JObj []] \<and>
   statusCode (fst (pin_image example_json_parse example_pinata
      (example_request (JStr ''Deed'') JUndefined (JStr ''not json'')))) = 200"
proof -
  let ?req = "example_request (JStr ''Deed'') JUndefined (JStr ''not json'')"
  have f: "req_file ?req = Some example_file"
    by (simp add: example_request_def)
  have p: "field_properties ?req = JStr ''not json''"
    by (simp add: example_request_def field_properties_def)
  have j: "example_json_parse ''not json'' = None"
    by (simp add: example_json_parse_def)
  have bad: "(\<forall>s. field_properties ?req \<noteq> JStr s) \<or>
      (\<exists>s. field_properties ?req = JStr s \<and> (js_trim s = [] \<or> example_json_parse s = None))"
    using p j by simp
  have ok: "statusCode (fst (pin_image example_json_parse example_pinata ?req)) = 200"
    by (simp add: pin_image_def example_request_def example_pinata_def Let_def
        res_json_def res_status_def new_response_def)
  have one: "length (pinned_metadata (snd (pin_image example_json_parse example_pinata ?req))) = 1"
    using ok by (rule pin_image_ok_pinned)
  then obtain md where
    md: "pinned_metadata (snd (pin_image example_json_parse example_pinata ?req)) = [md]"
    by (auto simp: length_Suc_conv)
  have "md_properties md = JObj []"
    using pin_image_properties_lenient [OF f bad, of example_pinata] md by simp
  with md ok pin_image_properties_lenient [OF f bad, of example_pinata]
  show ?thesis by simp
qed

text \<open>
  C8. Every metadata document the handler pins has as its name and description the trimmed
  \<^verbatim>\<open>metaName\<close> and \<^verbatim>\<open>metaDescription\<close> fields of the request body where these are strings that
  are non-empty after trimming, and the defaults \<^verbatim>\<open>NFT Example\<close> and
  \<^verbatim>\<open>This is an unchangeable NFT\<close> otherwise (also when there is no body); a \<^verbatim>\<open>metaName\<close> of
  whitespace only gives the default name. A request answered with 200 has pinned exactly one
  such document. Through the route, the fields are the text fields of the multipart form.
\<close>

theorem pin_image_name_description:
  "(req_file req = Some file \<and> pin_image json_parse pinata req = (res, calls) \<longrightarrow>
      (\<forall>md \<in> set (pinned_metadata calls).
         (\<forall>b. req_body req = Some b \<longrightarrow>
            md_name md = trimmed_or_default (body_metaName b) ''NFT Example'' \<and>
            md_description md =
              trimmed_or_default (body_metaDescription b) ''This is an unchangeable NFT'' \<and>
            (\<forall>s. body_metaName b = JStr s \<and> list_all js_whitespace s
                 \<longrightarrow> md_name md = ''NFT Example'')) \<and>
         (req_body req = None \<longrightarrow>
            md_name md = ''NFT Example'' \<and> md_description md = ''This is an unchangeable NFT'')) \<and>
      (statusCode res = 200 \<longrightarrow> length (pinned_metadata calls) = 1)) \<and>
   (post_pin_image json_parse pinata (Multipart parts) = (res', calls') \<longrightarrow>
      (\<forall>md \<in> set (pinned_metadata calls').
         md_name md = trimmed_or_default (text_field ''metaName'' parts) ''NFT Example'' \<and>
         md_description md =
           trimmed_or_default (text_field ''metaDescription'' parts)
             ''This is an unchangeable NFT''))"
proof (intro conjI impI ballI allI)
  fix md b
  assume a: "req_file req = Some file \<and> pin_image json_parse pinata req = (res, calls)"
    and md: "md \<in> set (pinned_metadata calls)" and b: "req_body req = Some b"
  from a md have m: "md \<in> set (pinned_metadata (snd (pin_image json_parse pinata req)))"
    by simp
  show n: "md_name md = trimmed_or_default (body_metaName b) ''NFT Example''"
    using pinned_names [OF m] b by simp
  show "md_description md =
      trimmed_or_default (body_metaDescription b) ''This is an unchangeable NFT''"
    using pinned_names [OF m] b by simp
  fix s
  assume "body_metaName b = JStr s \<and> list_all js_whitespace s"
  with n show "md_name md = ''NFT Example''"
    by (simp add: trimmed_or_default_def js_trim_whitespace)
next
  fix md
  assume a: "req_file req = Some file \<and> pin_image json_parse pinata req = (res, calls)"
    and md: "md \<in> set (pinned_metadata calls)" and b: "req_body req = None"
  from a md have m: "md \<in> set (pinned_metadata (snd (pin_image json_parse pinata req)))"
    by simp
  show "md_name md = ''NFT Example''"
    using pinned_names [OF m] b by (simp add: trimmed_or_default_def)
  show "md_description md = ''This is an unchangeable NFT''"
    using pinned_names [OF m] b by (simp add: trimmed_or_default_def)
next
  assume a: "req_file req = Some file \<and> pin_image json_parse pinata req = (res, calls)"
    and "statusCode res = 200"
  then show "length (pinned_metadata calls) = 1"
    using pin_image_ok_pinned [of json_parse pinata req] by simp
next
  fix md
  assume r: "post_pin_image json_parse pinata (Multipart parts) = (res', calls')"
    and md: "md \<in> set (pinned_metadata calls')"
  show "md_name md = trimmed_or_default (text_field ''metaName'' parts) ''NFT Example''"
  proof (cases "upload_single ''file'' parts")
    case (Inl e)
    with r md show ?thesis by (simp add: post_pin_image_def)
  next
    case (Inr req')
    with r md have "md \<in> set (pinned_metadata (snd (pin_image json_parse pinata req')))"
      by (simp add: post_pin_image_def)
    then show ?thesis
      using pinned_names [of md json_parse pinata req'] upload_single_body [OF Inr] by simp
  qed
  show "md_description md =
      trimmed_or_default (text_field ''metaDescription'' parts) ''This is an unchangeable NFT''"
  proof (cases "upload_single ''file'' parts")
    case (Inl e)
    with r md show ?thesis by (simp add: post_pin_image_def)
  next
    case (Inr req')
    with r md have "md \<in> set (pinned_metadata (snd (pin_image json_parse pinata req')))"
      by (simp add: post_pin_image_def)
    then show ?thesis
      using pinned_names [of md json_parse pinata req'] upload_single_body [OF Inr] by simp
  qed
qed

theorem pin_image_name_description_witness:
  "map md_name (pinned_metadata (snd (pin_image example_json_parse example_pinata
      (example_request (JStr '' Deed '') (JStr '' A deed '') JUndefined)))) = [''Deed''] \<and>
   map md_description (pinned_metadata (snd (pin_image example_json_parse example_pinata
      (example_request (JStr '' Deed '') (JStr '' A deed '') JUndefined)))) = [''A deed''] \<and>
   map md_name (pinned_metadata (snd (pin_image example_json_parse example_pinata
      (example_request (JStr ''  '') JUndefined JUndefined)))) = [''NFT Example''] \<and>
   map md_description (pinned_metadata (snd (pin_image example_json_parse example_pinata
      (example_request (JStr ''  '') JUndefined JUndefined)))) = [''This is an unchangeable NFT''] \<and>
   map md_name (pinned_metadata (snd (post_pin_image example_json_parse example_pinata
      (Multipart [TextField ''metaName'' ''Plot 7 '', FileField ''file'' ''deed.png'' [137, 80]]))))
     = [''Plot 7'']"
proof -
  let ?r1 = "example_request (JStr '' Deed '') (JStr '' A deed '') JUndefined"
  let ?r2 = "example_request (JStr ''  '') JUndefined JUndefined"
  let ?parts = "[TextField ''metaName'' ''Plot 7 '', FileField ''file'' ''deed.png'' [137, 80]]"
  let ?b1 = "\<lparr>body_metaName = JStr '' Deed '', body_metaDescription = JStr '' A deed '',
              body_properties = JUndefined\<rparr>"
  let ?b2 = "\<lparr>body_metaName = JStr ''  '', body_metaDescription = JUndefined,
              body_properties = JUndefined\<rparr>"
  have pair: "p = (fst p, snd p)" for p :: "response \<times> upstream_call list" by simp
  have f: "req_file (example_request n d p) = Some example_file" for n d p
    by (simp add: example_request_def)
  have b1: "req_body ?r1 = Some ?b1" and b2: "req_body ?r2 = Some ?b2"
    by (simp_all add: example_request_def)
  have ok: "statusCode (fst (pin_image example_json_parse example_pinata (example_request n d p))) = 200"
    for n d p
    by (simp add: pin_image_def example_request_def example_pinata_def Let_def
        res_json_def res_status_def new_response_def)
  have tr: "trimmed_or_default (JStr '' Deed '') ''NFT Example'' = ''Deed''"
    "trimmed_or_default (JStr '' A deed '') ''This is an unchangeable NFT'' = ''A deed''"
    "trimmed_or_default (JStr ''  '') ''NFT Example'' = ''NFT Example''"
    "trimmed_or_default JUndefined ''This is an unchangeable NFT'' = ''This is an unchangeable NFT''"
    "trimmed_or_default (JStr ''Plot 7 '') ''NFT Example'' = ''Plot 7''"
    by (simp_all add: trimmed_or_default_def js_trim_def js_whitespace_def)
  have one: "\<exists>md. xs = [md]" if "length xs = 1" for xs :: "nft_metadata list"
    using that by (auto simp: length_Suc_conv)
  note t1 = pin_image_name_description
      [of ?r1 example_file example_json_parse example_pinata
        "fst (pin_image example_json_parse example_pinata ?r1)"
        "snd (pin_image example_json_parse example_pinata ?r1)" "[]"]
  note t2 = pin_image_name_description
      [of ?r2 example_file example_json_parse example_pinata
        "fst (pin_image example_json_parse example_pinata ?r2)"
        "snd (pin_image example_json_parse example_pinata ?r2)" "[]"]
  obtain m1 where m1: "pinned_metadata (snd (pin_image example_json_parse example_pinata ?r1)) = [m1]"
    using one [OF pin_image_ok_pinned [OF ok]] by blast
  obtain m2 where m2: "pinned_metadata (snd (pin_image example_json_parse example_pinata ?r2)) = [m2]"
    using one [OF pin_image_ok_pinned [OF ok]] by blast
  have p3: "pinned_metadata (snd (post_pin_image example_json_parse example_pinata (Multipart ?parts)))
      = [\<lparr>md_name = ''Plot 7'', md_description = ''This is an unchangeable NFT'',
           md_image = ''ipfs://QmImage'', md_properties = JObj []\<rparr>]"
    by (simp add: post_pin_image_def upload_single_def fileSize_limit_def text_field_def
        pin_image_def example_pinata_def Let_def field_metaName_def field_metaDescription_def
        field_properties_def safeTrim_def safeJsonParse_def str_or_def js_trim_def
        js_whitespace_def)
  have "md_name m1 = ''Deed''" "md_description m1 = ''A deed''"
    using t1 f b1 m1 tr by simp_all
  moreover have "md_name m2 = ''NFT Example''" "md_description m2 = ''This is an unchangeable NFT''"
    using t2 f b2 m2 tr by simp_all
  ultimately show ?thesis
    using m1 m2 p3 by simp
qed

subsection \<open>Health check\<close>

text \<open>
  C9. Every response of \<^verbatim>\<open>GET /health\<close>, in both server files, has status 200, the header
  \<^verbatim>\<open>Cache-Control: no-store\<close> and a body \<^verbatim>\<open>{ok: true, ts}\<close>. Over repeated calls the \<^verbatim>\<open>ts\<close> values
  are the successive readings of the system clock, so they are non-decreasing whenever those
  readings are.
\<close>

theorem health_responses:
  "(\<forall>r \<in> set (health_calls clock) \<union> set (health_v0_calls clock).
      statusCode r = 200 \<and>
      map_of (headers r) ''Cache-Control'' = Some ''no-store'' \<and>
      (\<exists>t. body r = Some (JObj [(''ok'', JBool True), (''ts'', JNum t)]))) \<and>
   ts_values (health_calls clock) = clock \<and>
   ts_values (health_v0_calls clock) = clock \<and>
   (sorted clock \<longrightarrow>
      sorted (ts_values (health_calls clock)) \<and> sorted (ts_values (health_v0_calls clock)))"
proof (intro conjI ballI impI)
  fix r
  assume "r \<in> set (health_calls clock) \<union> set (health_v0_calls clock)"
  then obtain now where r: "r = health now \<or> r = health_v0 now"
    by (auto simp: health_calls_def health_v0_calls_def)
  from r show "statusCode r = 200" by (auto simp: health_fields)
  from r show "map_of (headers r) ''Cache-Control'' = Some ''no-store''"
    by (auto simp: health_fields)
  from r show "\<exists>t. body r = Some (JObj [(''ok'', JBool True), (''ts'', JNum t)])"
    by (auto simp: health_fields)
qed (simp_all add: ts_values_health_calls ts_values_health_v0_calls)

theorem health_responses_witness:
  "ts_values (health_calls [1000, 1000, 1007]) = [1000, 1000, 1007] \<and>
   sorted (ts_values (health_calls [1000, 1000, 1007])) \<and>
   statusCode (health 1000) = 200 \<and>
   map_of (headers (health_v0 1000)) ''Cache-Control'' = Some ''no-store''"
  using health_responses [of "[1000, 1000, 1007]"]
  by (simp add: health_calls_def health_v0_calls_def)

text \<open>
  \<^verbatim>\<open>Date.now()\<close> is the wall clock; when it is set back between two requests the second
  \<^verbatim>\<open>ts\<close> is smaller than the first.
\<close>

theorem health_clock_counterexample:
  "\<not> sorted (ts_values (health_calls [2000, 1000])) \<and>
   \<not> sorted (ts_values (health_v0_calls [2000, 1000]))"
  by (simp add: ts_values_health_calls ts_values_health_v0_calls)

subsection \<open>Amounts\<close>

text \<open>
  C10. \<^verbatim>\<open>parseAmount\<close> undoes \<^verbatim>\<open>formatAmount\<close> on bigint amounts and on number amounts below
  \<open>2\<^sup>5\<^sup>3\<close>: for every such amount \<open>n \<ge> 0\<close> and every number of decimals \<open>d > 0\<close>, parsing
  the formatted amount gives \<open>n\<close> back. And \<^verbatim>\<open>parseAmount\<close> throws on a string that is empty
  after trimming, on one that is not an unsigned decimal numeral, and on a numeral with more
  than \<open>d\<close> digits after the point.
\<close>

theorem parseAmount_left_inverse_and_rejects:
  "(0 \<le> n \<and> 0 < d
      \<longrightarrow> parseAmount (formatAmount number_toString (BigIntAmount n) d) d = Inr n) \<and>
   (0 \<le> x \<and> x < 2 ^ 53 \<and> 0 < d
      \<longrightarrow> parseAmount (formatAmount number_toString (NumberAmount x) d) d = Inr x) \<and>
   (js_trim s = [] \<longrightarrow> parseAmount s d = Inl AmountRequired) \<and>
   (js_trim s \<noteq> [] \<and> \<not> unsigned_decimal (js_trim s)
      \<longrightarrow> parseAmount s d = Inl InvalidAmountFormat) \<and>
   (js_trim s = ip @ CHR ''.'' # fp \<and> digits1 ip \<and> digits1 fp \<and> d < length fp
      \<longrightarrow> parseAmount s d = Inl (TooManyDecimalPlaces d))"
proof (intro conjI impI)
  assume "0 \<le> n \<and> 0 < d"
  then show "parseAmount (formatAmount number_toString (BigIntAmount n) d) d = Inr n"
    using parseAmount_formatAmount_roundtrip [OF amount_toString_bigint, of n d number_toString]
    by simp
next
  assume "0 \<le> x \<and> x < 2 ^ 53 \<and> 0 < d"
  then show "parseAmount (formatAmount number_toString (NumberAmount x) d) d = Inr x"
    using parseAmount_formatAmount_roundtrip [OF amount_toString_safe_number, of x d number_toString]
    by simp
next
  assume "js_trim s = []"
  then show "parseAmount s d = Inl AmountRequired"
    by (simp add: parseAmount_def)
next
  assume "js_trim s \<noteq> [] \<and> \<not> unsigned_decimal (js_trim s)"
  then show "parseAmount s d = Inl InvalidAmountFormat"
    by (simp add: parseAmount_def unsigned_decimal_iff)
next
  assume "js_trim s = ip @ CHR ''.'' # fp \<and> digits1 ip \<and> digits1 fp \<and> d < length fp"
  then show "parseAmount s d = Inl (TooManyDecimalPlaces d)"
    by (simp add: parseAmount_trimmed_point)
qed

theorem parseAmount_left_inverse_and_rejects_witness:
  "parseAmount (formatAmount example_number_toString (BigIntAmount 1500000) 6) 6 = Inr 1500000 \<and>
   parseAmount (formatAmount example_number_toString (NumberAmount 42) 6) 6 = Inr 42 \<and>
   parseAmount ''  '' 6 = Inl AmountRequired \<and>
   parseAmount ''12a'' 6 = Inl InvalidAmountFormat \<and>
   parseAmount '' 1.1234567'' 6 = Inl (TooManyDecimalPlaces 6)"
proof -
  have t1: "js_trim ''  '' = []"
    by (simp add: js_trim_def js_whitespace_def)
  have t2: "js_trim ''12a'' = ''12a''"
    by (simp add: js_trim_def js_whitespace_def)
  have n2: "\<not> unsigned_decimal ''12a''"
    by (simp add: unsigned_decimal_iff amount_regex_test_def is_digit_def)
  have t3: "js_trim '' 1.1234567'' = ''1'' @ CHR ''.'' # ''1234567''"
    by (simp add: js_trim_def js_whitespace_def)
  have d3: "digits1 ''1''" "digits1 ''1234567''"
    by (simp_all add: digits1_def is_digit_def)
  show ?thesis
    using parseAmount_left_inverse_and_rejects
        [of 1500000 6 example_number_toString 42 "''  ''" "[]" "[]"]
      parseAmount_left_inverse_and_rejects
        [of 0 6 example_number_toString 0 "''12a''" "[]" "[]"]
      parseAmount_left_inverse_and_rejects
        [of 0 6 example_number_toString 0 "'' 1.1234567''" "''1''" "''1234567''"]
      t1 t2 n2 t3 d3
    by simp
qed

text \<open>
  The round trip fails for large number amounts. The number \<^verbatim>\<open>1e21\<close> is formatted in exponent
  notation, which \<^verbatim>\<open>parseAmount\<close> rejects; the number \<^verbatim>\<open>2**60\<close> is printed with rounded digits
  and parses to a different integer.
\<close>

theorem parseAmount_large_number_counterexample:
  "formatAmount example_number_toString (NumberAmount (10 ^ 21)) 6 = ''0.01e+21'' \<and>
   parseAmount (formatAmount example_number_toString (NumberAmount (10 ^ 21)) 6) 6
     = Inl InvalidAmountFormat \<and>
   formatAmount example_number_toString (NumberAmount (2 ^ 60)) 6 = ''1152921504606.847000'' \<and>
   parseAmount (formatAmount example_number_toString (NumberAmount (2 ^ 60)) 6) 6
     = Inr 1152921504606847000 \<and>
   (2 ^ 60 :: int) = 1152921504606846976"
proof -
  have a: "amount_toString example_number_toString (NumberAmount (10 ^ 21)) = ''1e+21''"
    by (simp add: amount_toString_def example_number_toString_def)
  have b: "amount_toString example_number_toString (NumberAmount (2 ^ 60)) = ''1152921504606847000''"
    by (simp add: amount_toString_def example_number_toString_def)
  have f1: "formatAmount example_number_toString (NumberAmount (10 ^ 21)) 6 = ''0.01e+21''"
    using formatAmount_short [OF a, of 6] by simp
  have f2: "formatAmount example_number_toString (NumberAmount (2 ^ 60)) 6 = ''1152921504606.847000''"
    using formatAmount_long [OF b, of 6] by simp
  have p1: "parseAmount ''0.01e+21'' 6 = Inl InvalidAmountFormat"
    by (simp add: parseAmount_def js_trim_def js_whitespace_def amount_regex_test_def is_digit_def)
  have dg: "digits1 ''1152921504606''" "digits1 ''847000''"
    by (simp_all add: digits1_def is_digit_def)
  have p2: "parseAmount ''1152921504606.847000'' 6 = Inr 1152921504606847000"
    using parseAmount_digits_dot_digits [OF dg, of 6]
    by (simp add: digits_value_def digit_val_def)
  show ?thesis
    using f1 f2 p1 p2 by simp
qed

end
